theory Spec2Isabelle
  imports Complex_Main
begin

section \<open>Numbers\<close>

text \<open>
  The program computes with JavaScript numbers (and, in the vertex shader, with GLSL
  floats).  This development reads every such number as a real number: each arithmetic
  operation is the exact operation on \<open>real\<close>, without rounding and without the values NaN
  and infinity.

  A \<open>Float32Array\<close> holds single-precision numbers: storing a number rounds it to the
  nearest one, ties to the even significand, as \<open>Math.fround\<close> does.  Single precision has
  24 significant bits: between \<open>2 ^ e\<close> and \<open>2 ^ (e + 1)\<close> its numbers are the multiples
  of \<open>2 ^ (e - 23)\<close>, and below \<open>2 ^ - 126\<close> the multiples of \<open>2 ^ - 149\<close>.  A number of
  magnitude \<open>2 ^ 128\<close> or more would be stored as infinity; the numbers stored by this
  program stay below 16.
\<close>

definition roundTiesToEven :: "real \<Rightarrow> int" where
  "roundTiesToEven y =
     (let f = \<lfloor>y\<rfloor>
      in if y - of_int f < 1 / 2 then f
         else if y - of_int f > 1 / 2 then f + 1
         else if even f then f else f + 1)"

definition fround :: "real \<Rightarrow> real" where
  "fround x =
     (if x = 0 then 0
      else
        let e = max \<lfloor>log 2 \<bar>x\<bar>\<rfloor> (- 126);
            ulp = 2 powr of_int (e - 23)
        in of_int (roundTiesToEven (x / ulp)) * ulp)"

section \<open>The top-level controller (App.tsx)\<close>

text \<open>The enum \<open>TreeState\<close> of types.ts.\<close>

datatype TreeState = SCATTERED | ASSEMBLED

text \<open>
  The state held by the component \<open>App\<close>: the five \<open>useState\<close> cells and the two
  \<open>useRef\<close> cells, with their initial values.
\<close>

record app_state =
  hasStarted :: bool
  treeState :: TreeState
  morphProgress :: real
  handDetected :: bool
  handHeight :: real
  targetMorphRef :: real
  targetHeightRef :: real

definition initialState :: app_state where
  "initialState =
     \<lparr> hasStarted = False, treeState = ASSEMBLED, morphProgress = 0,
       handDetected = False, handHeight = 1 / 2,
       targetMorphRef = 0, targetHeightRef = 1 / 2 \<rparr>"

text \<open>
  The two functional updates inside \<open>loop\<close>.  Both have the same shape and differ in
  the rate constant only:
  \<^verbatim>\<open>const diff = target - prev;
  if (Math.abs(diff) < 0.001) return target;
  return prev + diff * k;\<close>
\<close>

definition morphUpdate :: "real \<Rightarrow> real \<Rightarrow> real" where
  "morphUpdate target prev =
     (let diff = target - prev
      in if \<bar>diff\<bar> < 0.001 then target else prev + diff * 0.08)"

definition heightUpdate :: "real \<Rightarrow> real \<Rightarrow> real" where
  "heightUpdate target prev =
     (let diff = target - prev
      in if \<bar>diff\<bar> < 0.001 then target else prev + diff * 0.05)"

text \<open>One run of \<open>loop\<close>, that is one animation frame of the smoothing effect.\<close>

definition loop :: "app_state \<Rightarrow> app_state" where
  "loop s =
     s\<lparr> morphProgress := morphUpdate (targetMorphRef s) (morphProgress s),
        handHeight := heightUpdate (targetHeightRef s) (handHeight s) \<rparr>"

text \<open>\<open>n\<close> animation frames in a row, with nothing else happening in between.\<close>

fun ticks :: "nat \<Rightarrow> app_state \<Rightarrow> app_state" where
  "ticks 0 s = s"
| "ticks (Suc n) s = ticks n (loop s)"

text \<open>
  The callback \<open>handleHandUpdate\<close>.  \<open>useCallback\<close> creates it anew in every render in
  which \<open>treeState\<close> or \<open>hasStarted\<close> has changed, and the body reads these two from the
  render that created it, not from the state at the time of the call: they are the
  parameters \<open>hasStarted'\<close> and \<open>treeState'\<close>.  The setters \<open>setHandDetected\<close> and
  \<open>setTreeState\<close> and the assignments to the two refs are updates of the state of the call.
\<close>

definition handleHandUpdate ::
  "bool \<Rightarrow> TreeState \<Rightarrow> real \<Rightarrow> real \<Rightarrow> bool \<Rightarrow> app_state \<Rightarrow> app_state" where
  "handleHandUpdate hasStarted' treeState' distance height detected s =
     (if \<not> hasStarted' then s
      else
        let s1 = s\<lparr> handDetected := detected \<rparr>
        in if detected then
             let morphVal = min (max distance 0) 1;
                 s2 = s1\<lparr> targetMorphRef := morphVal \<rparr>;
                 s3 = (if morphVal > 0.6 then s2\<lparr> treeState := SCATTERED \<rparr>
                       else if morphVal < 0.4 then s2\<lparr> treeState := ASSEMBLED \<rparr>
                       else s2)
             in s3\<lparr> targetHeightRef := height \<rparr>
           else
             s1\<lparr> targetMorphRef := (if treeState' = ASSEMBLED then 0 else 1) \<rparr>)"

text \<open>The button handler \<open>toggleState\<close> and the overlay's \<open>onOpen\<close>.\<close>

definition toggleState :: "app_state \<Rightarrow> app_state" where
  "toggleState s =
     (let newState = (if treeState s = ASSEMBLED then SCATTERED else ASSEMBLED)
      in s\<lparr> treeState := newState,
            targetMorphRef := (if newState = ASSEMBLED then 0 else 1) \<rparr>)"

definition onOpen :: "app_state \<Rightarrow> app_state" where
  "onOpen s = s\<lparr> hasStarted := True \<rparr>"

text \<open>
  The callback that the tracker calls.  \<open>HandTracker\<close> is rendered only once \<open>hasStarted\<close>
  is true; its effect runs once, at the mount, and the \<open>predictWebcam\<close> of that first
  render registers itself again for every later frame.  So for the whole session the
  tracker calls the \<open>onHandUpdate\<close> it was given at the mount: the \<open>handleHandUpdate\<close>
  created by the render of the state in which the overlay has just been opened.  Before
  that, nothing changes the initial state.
\<close>

definition onHandUpdate :: "real \<Rightarrow> real \<Rightarrow> bool \<Rightarrow> app_state \<Rightarrow> app_state" where
  "onHandUpdate =
     handleHandUpdate (hasStarted (onOpen initialState)) (treeState (onOpen initialState))"


section \<open>The gesture mapper (HandTracker, \<open>predictWebcam\<close>)\<close>

text \<open>
  A landmark of the hand recogniser has the coordinates \<open>x\<close>, \<open>y\<close> and \<open>z\<close>; a hand is
  the array of its landmarks (index 4 the thumb tip, 8 the index fingertip, 20 the pinky
  tip), and \<open>results.landmarks\<close> is the array of the hands found, or is missing.
\<close>

datatype landmark = Landmark (lx: real) (ly: real) (lz: real)

datatype js_error = TypeError

text \<open>
  Reading \<open>hand[i]\<close> and then a coordinate of it: beyond the end of the array the element
  is \<open>undefined\<close>, and reading its property throws.
\<close>

definition landmarkAt :: "landmark list \<Rightarrow> nat \<Rightarrow> js_error + landmark" where
  "landmarkAt hand i = (if i < length hand then Inr (hand ! i) else Inl TypeError)"

text \<open>
  The part of \<open>predictWebcam\<close> between the call of the recogniser and the call of
  \<open>onHandUpdate\<close>: from \<open>results.landmarks\<close> to the three arguments \<open>distance\<close>,
  \<open>height\<close>, \<open>detected\<close> handed to \<open>onHandUpdate\<close>.
\<close>

definition predictWebcam :: "landmark list list option \<Rightarrow> js_error + (real \<times> real \<times> bool)" where
  "predictWebcam landmarks =
     (let interaction =
        (case landmarks of
           None \<Rightarrow> Inr (0, 1 / 2, False)
         | Some hands \<Rightarrow>
             if length hands > 0 then
               if length hands = 2 then
                 (case (landmarkAt (hands ! 0) 8, landmarkAt (hands ! 1) 8) of
                    (Inr handA, Inr handB) \<Rightarrow>
                      let dx = lx handA - lx handB;
                          dy = ly handA - ly handB;
                          distance = sqrt (dx * dx + dy * dy);
                          avgY = (ly handA + ly handB) / 2;
                          height = 1 - avgY
                      in Inr (distance, height, True)
                  | _ \<Rightarrow> Inl TypeError)
               else if length hands = 1 then
                 (let hand = hands ! 0
                  in case (landmarkAt hand 4, landmarkAt hand 20, landmarkAt hand 8) of
                       (Inr thumb, Inr pinky, Inr index) \<Rightarrow>
                         let dx = lx thumb - lx pinky;
                             dy = ly thumb - ly pinky;
                             distance = sqrt (dx * dx + dy * dy) * 2;
                             height = 1 - ly index
                         in Inr (distance, height, True)
                     | _ \<Rightarrow> Inl TypeError)
               else Inr (0, 1 / 2, True)
             else Inr (0, 1 / 2, False))
      in case interaction of
           Inl e \<Rightarrow> Inl e
         | Inr (distance, height, detected) \<Rightarrow>
             Inr (min (max distance 0) 1.2, min (max height 0) 1, detected))"

section \<open>The geometry generator (utils/geometry)\<close>

text \<open>A \<open>THREE.Vector3\<close>, and its method \<open>add\<close>.\<close>

datatype vec3 = Vector3 (vx: real) (vy: real) (vz: real)

definition add :: "vec3 \<Rightarrow> vec3 \<Rightarrow> vec3" where
  "add a v = Vector3 (vx a + vx v) (vy a + vy v) (vz a + vz v)"

definition FOLIAGE_COUNT :: nat where
  "FOLIAGE_COUNT = 15000"

definition TREE_HEIGHT :: real where
  "TREE_HEIGHT = 7"

definition TREE_RADIUS :: real where
  "TREE_RADIUS = 2.8"

definition SCATTER_RADIUS :: real where
  "SCATTER_RADIUS = 12"

text \<open>
  \<open>Math.random()\<close> is modelled by the sequence \<open>random\<close> of the numbers it returns, call
  after call, together with the number \<open>n\<close> of calls made so far: the next call returns
  \<open>random n\<close>.  Every function that draws random numbers takes \<open>n\<close> and returns the new
  count with its result.  JavaScript promises \<open>0 \<le> random n < 1\<close>; the theorems that need
  this range assume it.
\<close>

definition getRandomPointInSphere :: "real \<Rightarrow> (nat \<Rightarrow> real) \<Rightarrow> nat \<Rightarrow> vec3 \<times> nat" where
  "getRandomPointInSphere radius random n =
     (let u = random n;
          v = random (n + 1);
          theta = 2 * pi * u;
          phi = arccos (2 * v - 1);
          r = root 3 (random (n + 2)) * radius;
          sinPhi = sin phi
      in (Vector3 (r * sinPhi * cos theta) (r * sinPhi * sin theta) (r * cos phi), n + 3))"

definition getRandomPointInCone :: "real \<Rightarrow> real \<Rightarrow> (nat \<Rightarrow> real) \<Rightarrow> nat \<Rightarrow> vec3 \<times> nat" where
  "getRandomPointInCone height maxRadius random n =
     (let y = random n * height;
          rAtY = (1 - y / height) * maxRadius;
          r = sqrt (random (n + 1)) * rAtY;
          theta = random (n + 2) * pi * 2
      in (Vector3 (r * cos theta) (y - height / 2 - 0.5) (r * sin theta), n + 3))"

text \<open>
  The interface \<open>FoliageData\<close> of types.ts; a \<open>Float32Array\<close> is a list of numbers of
  fixed length, filled with zeros when it is created, and every number written into it is
  rounded by \<open>fround\<close>.
\<close>

record FoliageData =
  scatterPositions :: "real list"
  treePositions :: "real list"
  randoms :: "real list"
  sizes :: "real list"
  count :: nat

text \<open>
  The body of the \<open>for\<close> loop of \<open>generateFoliage\<close> at index \<open>i\<close>, on the four arrays
  and the count of random draws.  The points are computed in double precision (here: in
  \<open>real\<close>) and rounded when their coordinates are stored.
\<close>

definition foliageBody ::
  "(nat \<Rightarrow> real) \<Rightarrow> nat \<Rightarrow> FoliageData \<times> nat \<Rightarrow> FoliageData \<times> nat" where
  "foliageBody random i st =
     (let d = fst st;
          n = snd st;
          (scatter, n1) = getRandomPointInSphere SCATTER_RADIUS random n;
          sp = (scatterPositions d)
                 [i * 3 := fround (vx scatter),
                  i * 3 + 1 := fround (vy scatter),
                  i * 3 + 2 := fround (vz scatter)];
          (tree0, n2) = getRandomPointInCone TREE_HEIGHT TREE_RADIUS random n1;
          tree = add tree0
                   (Vector3 ((random n2 - 0.5) * 0.3)
                            ((random (n2 + 1) - 0.5) * 0.3)
                            ((random (n2 + 2) - 0.5) * 0.3));
          n3 = n2 + 3;
          tp = (treePositions d)
                 [i * 3 := fround (vx tree),
                  i * 3 + 1 := fround (vy tree),
                  i * 3 + 2 := fround (vz tree)];
          rs = (randoms d)[i := fround (random n3)];
          n4 = n3 + 1;
          sz = (if random n4 > 0.9
                then (sizes d)[i := fround (2 + random (n4 + 1) * 2)]
                else (sizes d)[i := fround (0.5 + random (n4 + 1) * 0.8)]);
          n5 = n4 + 2
      in (d\<lparr> scatterPositions := sp, treePositions := tp, randoms := rs, sizes := sz \<rparr>, n5))"

text \<open>The loop \<open>for (let i = 0; i < FOLIAGE_COUNT; i++)\<close>, entered at index \<open>i\<close>.\<close>

function foliageLoop ::
  "(nat \<Rightarrow> real) \<Rightarrow> nat \<Rightarrow> FoliageData \<times> nat \<Rightarrow> FoliageData \<times> nat" where
  "foliageLoop random i st =
     (if i < FOLIAGE_COUNT then foliageLoop random (i + 1) (foliageBody random i st) else st)"
  by pat_completeness auto
termination
  by (relation "measure (\<lambda>(random, i, st). FOLIAGE_COUNT - i)") auto

definition generateFoliage :: "(nat \<Rightarrow> real) \<Rightarrow> FoliageData" where
  "generateFoliage random =
     fst (foliageLoop random 0
       (\<lparr> scatterPositions = replicate (FOLIAGE_COUNT * 3) 0,
          treePositions = replicate (FOLIAGE_COUNT * 3) 0,
          randoms = replicate FOLIAGE_COUNT 0,
          sizes = replicate FOLIAGE_COUNT 0,
          count = FOLIAGE_COUNT \<rparr>, 0))"

section \<open>The formation blend (ParticleScene.tsx)\<close>

subsection \<open>Built-in functions of the shading language\<close>

text \<open>
  The GLSL functions that the vertex shader calls, as the language defines them:
  \<open>clamp(x, a, b) = min(max(x, a), b)\<close>; \<open>smoothstep\<close> is the clamped Hermite
  interpolation; \<open>mix(x, y, a) = x * (1 - a) + y * a\<close>, component by component;
  \<open>length\<close> is the Euclidean norm and \<open>normalize(v) = v / length(v)\<close>.  The language leaves
  \<open>normalize\<close> of the zero vector undefined (here division by zero yields zero), and
  \<open>pow(x, y)\<close> undefined for negative \<open>x\<close>.
\<close>

definition clamp :: "real \<Rightarrow> real \<Rightarrow> real \<Rightarrow> real" where
  "clamp x minVal maxVal = min (max x minVal) maxVal"

definition smoothstep :: "real \<Rightarrow> real \<Rightarrow> real \<Rightarrow> real" where
  "smoothstep edge0 edge1 x =
     (let t = clamp ((x - edge0) / (edge1 - edge0)) 0 1
      in t * t * (3 - 2 * t))"

definition pow :: "real \<Rightarrow> real \<Rightarrow> real" where
  "pow x y = x powr y"

definition mix :: "vec3 \<Rightarrow> vec3 \<Rightarrow> real \<Rightarrow> vec3" where
  "mix a b t =
     Vector3 (vx a * (1 - t) + vx b * t) (vy a * (1 - t) + vy b * t) (vz a * (1 - t) + vz b * t)"

definition length3 :: "vec3 \<Rightarrow> real" where
  "length3 v = sqrt (vx v * vx v + vy v * vy v + vz v * vz v)"

definition normalize3 :: "vec3 \<Rightarrow> vec3" where
  "normalize3 v = Vector3 (vx v / length3 v) (vy v / length3 v) (vz v / length3 v)"

definition times3 :: "vec3 \<Rightarrow> real \<Rightarrow> vec3" where
  "times3 v k = Vector3 (vx v * k) (vy v * k) (vz v * k)"

subsection \<open>The foliage vertex shader\<close>

definition easeInOutCubic :: "real \<Rightarrow> real" where
  "easeInOutCubic x = (if x < 0.5 then 4 * x * x * x else 1 - pow (- 2 * x + 2) 3 / 2)"

text \<open>
  The part of \<open>main\<close> that computes the position of a particle: from the uniforms
  \<open>uTime\<close>, \<open>uMorph\<close> and the attributes \<open>aTreePos\<close>, \<open>aScatterPos\<close>, \<open>aRandom\<close> to the
  final values of \<open>localProgress\<close> and \<open>currentPos\<close>.
\<close>

definition foliageVertexShader :: "real \<Rightarrow> real \<Rightarrow> vec3 \<Rightarrow> vec3 \<Rightarrow> real \<Rightarrow> real \<times> vec3" where
  "foliageVertexShader uTime uMorph aTreePos aScatterPos aRandom =
     (let localProgress0 = smoothstep 0 1 (uMorph * 1.5 - aRandom * 0.5);
          localProgress = clamp localProgress0 0 1;
          currentPos0 = mix aTreePos aScatterPos (easeInOutCubic localProgress);
          breathe = sin (uTime * 1.5 + aRandom * 10) * 0.05 * (1 - localProgress);
          currentPos = add currentPos0 (times3 (normalize3 currentPos0) breathe)
      in (localProgress, currentPos))"

subsection \<open>The ornaments\<close>

text \<open>
  \<open>THREE.MathUtils.clamp(value, min, max)\<close> is \<open>Math.max(min, Math.min(max, value))\<close> and
  \<open>THREE.MathUtils.lerp(x, y, t)\<close> is \<open>(1 - t) * x + t * y\<close>.  \<open>Math.pow(b, 3)\<close> is the
  cube \<open>b ^ 3\<close>.
\<close>

definition MathUtils_clamp :: "real \<Rightarrow> real \<Rightarrow> real \<Rightarrow> real" where
  "MathUtils_clamp value minimum maximum = max minimum (min maximum value)"

definition MathUtils_lerp :: "real \<Rightarrow> real \<Rightarrow> real \<Rightarrow> real" where
  "MathUtils_lerp x y t = (1 - t) * x + t * y"

text \<open>
  The body of \<open>updateMesh\<close> for one item: \<open>smoothMorph\<close> and the position set on
  \<open>dummy\<close>, from \<open>targetMorph\<close> and the item's \<open>id\<close>, \<open>treePosition\<close> and
  \<open>scatterPosition\<close>.
\<close>

definition ornamentSmoothMorph :: "real \<Rightarrow> nat \<Rightarrow> real" where
  "ornamentSmoothMorph targetMorph item_id =
     (let offset = real item_id * 0.002;
          localMorph = MathUtils_clamp (targetMorph * 1.2 - offset) 0 1
      in if localMorph < 0.5 then 4 * localMorph * localMorph * localMorph
         else 1 - (- 2 * localMorph + 2) ^ 3 / 2)"

definition ornamentPosition :: "real \<Rightarrow> nat \<Rightarrow> vec3 \<Rightarrow> vec3 \<Rightarrow> vec3" where
  "ornamentPosition targetMorph item_id treePosition scatterPosition =
     (let smoothMorph = ornamentSmoothMorph targetMorph item_id
      in Vector3 (MathUtils_lerp (vx treePosition) (vx scatterPosition) smoothMorph)
                 (MathUtils_lerp (vy treePosition) (vy scatterPosition) smoothMorph)
                 (MathUtils_lerp (vz treePosition) (vz scatterPosition) smoothMorph))"

section \<open>Auxiliary definitions\<close>

text \<open>
  The common shape of \<open>morphUpdate\<close> and \<open>heightUpdate\<close>, with the rate as a parameter.
  It is used in the proofs only.
\<close>

definition approach :: "real \<Rightarrow> real \<Rightarrow> real \<Rightarrow> real" where
  "approach k target prev = (if \<bar>target - prev\<bar> < 0.001 then target else prev + (target - prev) * k)"


text \<open>
  What iteration \<open>j\<close> of the loop of \<open>generateFoliage\<close> computes, given that it starts at
  random draw \<open>12 * j\<close>: the scatter point, the point in the cone, and the point in the cone
  with the jitter added, all three before they are stored.
\<close>

definition particleScatter :: "(nat \<Rightarrow> real) \<Rightarrow> nat \<Rightarrow> vec3" where
  "particleScatter random j = fst (getRandomPointInSphere SCATTER_RADIUS random (12 * j))"

definition particleCone :: "(nat \<Rightarrow> real) \<Rightarrow> nat \<Rightarrow> vec3" where
  "particleCone random j = fst (getRandomPointInCone TREE_HEIGHT TREE_RADIUS random (12 * j + 3))"

definition particleTree :: "(nat \<Rightarrow> real) \<Rightarrow> nat \<Rightarrow> vec3" where
  "particleTree random j =
     add (particleCone random j)
       (Vector3 ((random (12 * j + 6) - 0.5) * 0.3)
                ((random (12 * j + 7) - 0.5) * 0.3)
                ((random (12 * j + 8) - 0.5) * 0.3))"

text \<open>The loop invariant of \<open>generateFoliage\<close> on entry to iteration \<open>i\<close>.\<close>

definition foliageInv :: "(nat \<Rightarrow> real) \<Rightarrow> nat \<Rightarrow> FoliageData \<times> nat \<Rightarrow> bool" where
  "foliageInv random i st \<longleftrightarrow>
     snd st = 12 * i
     \<and> length (scatterPositions (fst st)) = FOLIAGE_COUNT * 3
     \<and> length (treePositions (fst st)) = FOLIAGE_COUNT * 3
     \<and> count (fst st) = FOLIAGE_COUNT
     \<and> (\<forall>j<i. scatterPositions (fst st) ! (j * 3) = fround (vx (particleScatter random j))
              \<and> scatterPositions (fst st) ! (j * 3 + 1) = fround (vy (particleScatter random j))
              \<and> scatterPositions (fst st) ! (j * 3 + 2) = fround (vz (particleScatter random j))
              \<and> treePositions (fst st) ! (j * 3) = fround (vx (particleTree random j))
              \<and> treePositions (fst st) ! (j * 3 + 1) = fround (vy (particleTree random j))
              \<and> treePositions (fst st) ! (j * 3 + 2) = fround (vz (particleTree random j)))"

text \<open>
  Item \<open>i\<close> of a buffer attribute with item size 3, as the renderer reads the arrays
  \<open>treePositions\<close> and \<open>scatterPositions\<close>.
\<close>

definition positionAt :: "real list \<Rightarrow> nat \<Rightarrow> vec3" where
  "positionAt array i = Vector3 (array ! (i * 3)) (array ! (i * 3 + 1)) (array ! (i * 3 + 2))"

text \<open>
  The horizontal distance of a point from the vertical axis, and the radius at world
  height \<open>y\<close> of the cone that \<open>getRandomPointInCone TREE_HEIGHT TREE_RADIUS\<close> fills: its
  base lies at \<open>y = - TREE_HEIGHT / 2 - 0.5\<close>, so the height above the base is
  \<open>y + TREE_HEIGHT / 2 + 0.5\<close>, and the radius there is \<open>rAtY\<close> of the source.
\<close>

definition radial :: "vec3 \<Rightarrow> real" where
  "radial v = sqrt ((vx v)\<^sup>2 + (vz v)\<^sup>2)"

definition coneRadiusAt :: "real \<Rightarrow> real" where
  "coneRadiusAt y = (1 - (y + TREE_HEIGHT / 2 + 0.5) / TREE_HEIGHT) * TREE_RADIUS"

text \<open>
  A sequence of random draws, all in \<open>[0, 1)\<close>, for which the first particle is sampled
  close to the apex, on the axis, and then moved sideways by the jitter.
\<close>

definition jitterRandom :: "nat \<Rightarrow> real" where
  "jitterRandom n = (if n = 3 then 0.99 else if n = 6 then 0.9 else if n = 7 \<or> n = 8 then 0.5 else 0)"


text \<open>Linear interpolation from \<open>a\<close> to \<open>b\<close>, in the form \<open>a + (b - a) * t\<close>.\<close>

definition lerp :: "real \<Rightarrow> real \<Rightarrow> real \<Rightarrow> real" where
  "lerp a b t = a + (b - a) * t"

text \<open>A vector whose three coordinates have been stored in a \<open>Float32Array\<close>.\<close>

definition fround3 :: "vec3 \<Rightarrow> vec3" where
  "fround3 v = Vector3 (fround (vx v)) (fround (vy v)) (fround (vz v))"

text \<open>
  A sequence of random draws, all in \<open>[0, 1)\<close> and all of them double-precision numbers,
  for which the first scatter point lies just inside the sphere and is rounded outwards
  when it is stored.
\<close>

definition roundingRandom :: "nat \<Rightarrow> real" where
  "roundingRandom n =
     (if n = 0 then 1 / 8 else if n = 1 then 3 / 4 else if n = 2 then 1 - 1 / 2 ^ 27 else 0)"

section \<open>Lemmas on single-precision rounding\<close>

lemma roundTiesToEven_error: "\<bar>of_int (roundTiesToEven y) - y\<bar> \<le> 1 / 2"
proof -
  have "of_int \<lfloor>y\<rfloor> \<le> y" "y < of_int \<lfloor>y\<rfloor> + 1"
    by linarith+
  then show ?thesis
    by (auto simp add: roundTiesToEven_def Let_def)
qed

lemma roundTiesToEven_eq:
  assumes "of_int k - 1 / 2 < y" "y < of_int k + 1 / 2"
  shows "roundTiesToEven y = k"
proof -
  have fl: "of_int \<lfloor>y\<rfloor> \<le> y" "y < of_int \<lfloor>y\<rfloor> + 1"
    by linarith+
  consider "\<lfloor>y\<rfloor> = k" | "\<lfloor>y\<rfloor> = k - 1"
  proof -
    have "(of_int k :: real) < of_int \<lfloor>y\<rfloor> + 2" using assms fl by linarith
    then have "k < \<lfloor>y\<rfloor> + 2" by linarith
    moreover have "(of_int \<lfloor>y\<rfloor> :: real) < of_int k + 1" using assms fl by linarith
    then have "\<lfloor>y\<rfloor> < k + 1" by linarith
    ultimately have "\<lfloor>y\<rfloor> = k \<or> \<lfloor>y\<rfloor> = k - 1" by linarith
    then show ?thesis using that by blast
  qed
  then show ?thesis
  proof cases
    case 1
    then show ?thesis using assms by (simp add: roundTiesToEven_def Let_def)
  next
    case 2
    then show ?thesis using assms by (simp add: roundTiesToEven_def Let_def)
  qed
qed

lemma fround_via_exponent:
  assumes "2 powr of_int e \<le> \<bar>x\<bar>" "\<bar>x\<bar> < 2 powr of_int (e + 1)" "- 126 \<le> e"
  shows "fround x = of_int (roundTiesToEven (x / 2 powr of_int (e - 23))) * 2 powr of_int (e - 23)"
proof -
  have pos: "0 < \<bar>x\<bar>"
    using assms(1) by (smt (verit) powr_gt_zero)
  then have "\<lfloor>log 2 \<bar>x\<bar>\<rfloor> = e"
    using assms(1,2) by (simp add: floor_log_eq_powr_iff)
  with pos assms(3) show ?thesis
    by (simp add: fround_def Let_def)
qed

lemma fround_near:
  assumes "\<bar>x\<bar> < 16"
  shows "\<bar>fround x - x\<bar> \<le> 1 / 2 ^ 21"
proof (cases "x = 0")
  case True
  then show ?thesis by (simp add: fround_def)
next
  case False
  define e where "e = max \<lfloor>log 2 \<bar>x\<bar>\<rfloor> (- 126)"
  define ulp :: real where "ulp = 2 powr of_int (e - 23)"
  have "\<bar>x\<bar> < 2 powr 4"
    using assms by simp
  then have "log 2 \<bar>x\<bar> < 4"
    using False by (simp add: log_less_iff)
  then have "\<lfloor>log 2 \<bar>x\<bar>\<rfloor> < 4"
    by linarith
  then have "e \<le> 3" by (simp add: e_def)
  then have "ulp \<le> 2 powr of_int (- 20)"
    unfolding ulp_def by (intro powr_mono) simp_all
  also have "(2::real) powr of_int (- 20) = 1 / 2 ^ 20"
    by (simp add: powr_minus_divide)
  finally have ulp: "ulp \<le> 1 / 2 ^ 20" .
  have pos: "0 < ulp" by (simp add: ulp_def)
  have "fround x - x = (of_int (roundTiesToEven (x / ulp)) - x / ulp) * ulp"
    using False pos by (simp add: fround_def Let_def e_def ulp_def algebra_simps)
  then have "\<bar>fround x - x\<bar> = \<bar>of_int (roundTiesToEven (x / ulp)) - x / ulp\<bar> * ulp"
    using pos by (simp add: abs_mult)
  also have "\<dots> \<le> 1 / 2 * ulp"
    using pos roundTiesToEven_error [of "x / ulp"] by (intro mult_right_mono) simp_all
  also have "\<dots> \<le> 1 / 2 * (1 / 2 ^ 20)"
    using ulp by simp
  finally show ?thesis by simp
qed

lemma fround_between_4_and_8:
  assumes "4 \<le> x" "x < 8" "of_int k - 1 / 2 < x * 2 ^ 21" "x * 2 ^ 21 < of_int k + 1 / 2"
  shows "fround x = of_int k / 2 ^ 21"
proof -
  have p: "(2::real) powr of_int (2 - 23) = 1 / 2 ^ 21"
    by (simp add: powr_minus_divide)
  have "fround x = of_int (roundTiesToEven (x / 2 powr of_int (2 - 23))) * 2 powr of_int (2 - 23)"
    using assms(1,2) by (intro fround_via_exponent) simp_all
  also have "x / 2 powr of_int (2 - 23) = x * 2 ^ 21"
    by (simp only: p) simp
  also have "roundTiesToEven (x * 2 ^ 21) = k"
    using assms(3,4) by (rule roundTiesToEven_eq)
  finally show ?thesis by (simp only: p) simp
qed

lemma fround_3_25: "fround (3 / 25) = 16106127 / 2 ^ 27"
proof -
  have p: "(2::real) powr of_int (- 4 - 23) = 1 / 2 ^ 27"
    by (simp add: powr_minus_divide)
  have "fround (3 / 25)
      = of_int (roundTiesToEven ((3 / 25) / 2 powr of_int (- 4 - 23))) * 2 powr of_int (- 4 - 23)"
    by (rule fround_via_exponent) (simp_all add: powr_minus_divide)
  also have "roundTiesToEven ((3 / 25) / 2 powr of_int (- 4 - 23)) = 16106127"
    unfolding p by (rule roundTiesToEven_eq) simp_all
  finally show ?thesis by (simp only: p)
qed

lemma fround_293_100: "fround (293 / 100) = 12289311 / 2 ^ 22"
proof -
  have p: "(2::real) powr of_int (1 - 23) = 1 / 2 ^ 22"
    by (simp add: powr_minus_divide)
  have "fround (293 / 100)
      = of_int (roundTiesToEven ((293 / 100) / 2 powr of_int (1 - 23))) * 2 powr of_int (1 - 23)"
    by (rule fround_via_exponent) simp_all
  also have "roundTiesToEven ((293 / 100) / 2 powr of_int (1 - 23)) = 12289311"
    unfolding p by (rule roundTiesToEven_eq) simp_all
  finally show ?thesis by (simp only: p)
qed

lemma fround_zero: "fround 0 = 0"
  by (simp add: fround_def)


section \<open>Lemmas on the smoothing loop\<close>

lemma morphUpdate_approach: "morphUpdate = approach 0.08"
  by (simp add: fun_eq_iff morphUpdate_def approach_def Let_def)

lemma heightUpdate_approach: "heightUpdate = approach 0.05"
  by (simp add: fun_eq_iff heightUpdate_def approach_def Let_def)

lemma approach_below:
  assumes "0 < k" "k < 1" "c \<le> t"
  shows "c \<le> approach k t c \<and> approach k t c \<le> t"
proof -
  have "0 \<le> (t - c) * k" using assms by simp
  moreover have "(t - c) * k \<le> (t - c) * 1"
    using assms by (intro mult_left_mono) simp_all
  ultimately show ?thesis using assms by (simp add: approach_def)
qed

lemma approach_above:
  assumes "0 < k" "k < 1" "t \<le> c"
  shows "t \<le> approach k t c \<and> approach k t c \<le> c"
proof -
  have "0 \<le> (c - t) * k" using assms by simp
  moreover have "(c - t) * k \<le> (c - t) * 1"
    using assms by (intro mult_left_mono) simp_all
  ultimately show ?thesis using assms by (simp add: approach_def algebra_simps)
qed

lemma approach_fix: "approach k t t = t"
  by (simp add: approach_def)

lemma approach_funpow_fix: "(approach k t ^^ n) t = t"
  by (induction n) (simp_all add: approach_fix)

lemma approach_contract:
  assumes "0 < k" "k < 1"
  shows "\<bar>t - approach k t c\<bar> \<le> (1 - k) * \<bar>t - c\<bar>"
proof (cases "\<bar>t - c\<bar> < 0.001")
  case True
  then show ?thesis using assms by (simp add: approach_def)
next
  case False
  have "t - (c + (t - c) * k) = (1 - k) * (t - c)" by (simp add: algebra_simps)
  then have "\<bar>t - (c + (t - c) * k)\<bar> = (1 - k) * \<bar>t - c\<bar>"
    using assms by (simp add: abs_mult)
  with False show ?thesis by (simp add: approach_def)
qed

lemma approach_funpow_contract:
  assumes "0 < k" "k < 1"
  shows "\<bar>t - (approach k t ^^ n) c\<bar> \<le> (1 - k) ^ n * \<bar>t - c\<bar>"
proof (induction n)
  case 0
  show ?case by simp
next
  case (Suc n)
  have "\<bar>t - (approach k t ^^ Suc n) c\<bar> \<le> (1 - k) * \<bar>t - (approach k t ^^ n) c\<bar>"
    using approach_contract [OF assms] by simp
  also have "\<dots> \<le> (1 - k) * ((1 - k) ^ n * \<bar>t - c\<bar>)"
    using Suc assms by (intro mult_left_mono) simp_all
  finally show ?case by (simp add: mult.assoc)
qed

lemma approach_funpow_exact:
  assumes "0 < k" "k < 1" "(1 - k) ^ N * \<bar>t - c\<bar> < 0.001" "N < n"
  shows "(approach k t ^^ n) c = t"
proof -
  have near: "\<bar>t - (approach k t ^^ N) c\<bar> < 0.001"
    using approach_funpow_contract [OF assms(1,2), of t N c] assms(3) by linarith
  then have "(approach k t ^^ Suc N) c = t"
    by (simp add: approach_def)
  moreover obtain m where "n = m + Suc N"
    using assms(4) by (metis Suc_leI add.commute le_Suc_ex)
  ultimately have "(approach k t ^^ n) c = (approach k t ^^ m) t"
    by (simp only: funpow_add o_apply)
  then show ?thesis
    by (simp only: approach_funpow_fix)
qed

lemma approach_funpow_eventually:
  assumes "0 < k" "k < 1"
  shows "\<exists>N. \<forall>n>N. (approach k t ^^ n) c = t"
proof -
  have "\<exists>N. (1 - k) ^ N * \<bar>t - c\<bar> < 0.001"
  proof (cases "t = c")
    case True then show ?thesis by simp
  next
    case False
    then have pos: "0 < 0.001 / \<bar>t - c\<bar>" by simp
    have "1 - k < 1" using assms by simp
    from real_arch_pow_inv [OF pos this] obtain N where "(1 - k) ^ N < 0.001 / \<bar>t - c\<bar>" ..
    then have "(1 - k) ^ N * \<bar>t - c\<bar> < 0.001"
      using False by (simp add: pos_less_divide_eq)
    then show ?thesis ..
  qed
  then obtain N where "(1 - k) ^ N * \<bar>t - c\<bar> < 0.001" ..
  then have "\<forall>n>N. (approach k t ^^ n) c = t"
    using approach_funpow_exact [OF assms] by blast
  then show ?thesis ..
qed

lemma ticks_targets:
  "targetMorphRef (ticks n s) = targetMorphRef s \<and> targetHeightRef (ticks n s) = targetHeightRef s"
  by (induction n arbitrary: s) (simp_all add: loop_def)

lemma ticks_morphProgress:
  "morphProgress (ticks n s) = (morphUpdate (targetMorphRef s) ^^ n) (morphProgress s)"
  by (induction n arbitrary: s) (simp_all add: loop_def funpow_swap1)

lemma ticks_handHeight:
  "handHeight (ticks n s) = (heightUpdate (targetHeightRef s) ^^ n) (handHeight s)"
  by (induction n arbitrary: s) (simp_all add: loop_def funpow_swap1)

lemma pow92_82: "(0.001::real) \<le> 0.92 ^ 82"
  by (simp add: power_divide)

lemma pow92_83: "(0.92::real) ^ 83 < 0.001"
  by (simp add: power_divide)

lemma pow95_135: "(0.95::real) ^ 135 < 0.001"
  by (simp add: power_divide)


lemma approach_funpow_below:
  assumes "0 < k" "k < 1" "c \<le> t"
  shows "(approach k t ^^ n) c \<le> (approach k t ^^ Suc n) c \<and> (approach k t ^^ Suc n) c \<le> t"
proof -
  have "(approach k t ^^ n) c \<le> t"
    by (induction n) (use assms approach_below in simp_all)
  from approach_below [OF assms(1,2) this] show ?thesis by simp
qed

lemma approach_funpow_above:
  assumes "0 < k" "k < 1" "t \<le> c"
  shows "t \<le> (approach k t ^^ Suc n) c \<and> (approach k t ^^ Suc n) c \<le> (approach k t ^^ n) c"
proof -
  have "t \<le> (approach k t ^^ n) c"
    by (induction n) (use assms approach_above in simp_all)
  from approach_above [OF assms(1,2) this] show ?thesis by simp
qed

lemma approach_funpow_within:
  assumes "0 < k" "k < 1" "\<bar>t - c\<bar> \<le> 1" "(1 - k) ^ N < 0.001" "N \<le> n"
  shows "\<bar>t - (approach k t ^^ n) c\<bar> < 0.001"
proof -
  have "\<bar>t - (approach k t ^^ n) c\<bar> \<le> (1 - k) ^ n * \<bar>t - c\<bar>"
    by (rule approach_funpow_contract [OF assms(1,2)])
  also have "\<dots> \<le> (1 - k) ^ n * 1"
    using assms by (intro mult_left_mono) simp_all
  also have "\<dots> \<le> (1 - k) ^ N"
    using assms by (simp add: power_decreasing)
  finally show ?thesis using assms(4) by simp
qed

lemma morph_closed_form_early:
  "N \<le> 83 \<Longrightarrow> (approach 0.08 1 ^^ N) 0 = 1 - (1 - 0.08) ^ N"
proof (induction N)
  case 0
  show ?case by simp
next
  case (Suc N)
  then have le: "N \<le> 82" and IH: "(approach 0.08 1 ^^ N) 0 = 1 - (1 - 0.08) ^ N"
    by simp_all
  have "(0.92::real) ^ 82 \<le> 0.92 ^ N"
    using le by (intro power_decreasing) simp_all
  with pow92_82 have far: "\<not> (0.92::real) ^ N < 0.001"
    by linarith
  have "(approach 0.08 1 ^^ Suc N) 0 = approach 0.08 1 (1 - 0.92 ^ N)"
    using IH by simp
  also have "\<dots> = (1 - 0.92 ^ N) + (1 - (1 - 0.92 ^ N)) * 0.08"
    using far by (simp add: approach_def)
  also have "\<dots> = 1 - (1 - 0.08) ^ Suc N"
    by (simp add: algebra_simps)
  finally show ?case .
qed

lemma morph_closed_form:
  "(approach 0.08 1 ^^ N) 0 = (if N \<le> 83 then 1 - (1 - 0.08) ^ N else 1)"
proof (cases "N \<le> 83")
  case True
  then show ?thesis by (simp only: morph_closed_form_early if_True)
next
  case False
  then have "83 < N" by simp
  moreover have "(1 - 0.08) ^ 83 * \<bar>1 - 0\<bar> < (0.001::real)"
    using pow92_83 by simp
  ultimately have "(approach 0.08 1 ^^ N) 0 = 1"
    by (intro approach_funpow_exact [where N = 83]) simp_all
  with False show ?thesis by simp
qed

lemma morph_closed_form_near:
  "\<bar>(approach 0.08 1 ^^ N) 0 - (1 - (1 - 0.08) ^ N)\<bar> < 0.001"
proof (cases "N \<le> 83")
  case True
  then show ?thesis by (simp only: morph_closed_form_early) simp
next
  case False
  then have "(0.92::real) ^ N \<le> 0.92 ^ 83"
    by (intro power_decreasing) simp_all
  with pow92_83 have "(0.92::real) ^ N < 0.001" by linarith
  moreover have "(0::real) \<le> 0.92 ^ N" by simp
  moreover have "(approach 0.08 1 ^^ N) 0 = 1"
    using False by (simp only: morph_closed_form if_False)
  ultimately show ?thesis by simp
qed

section \<open>Lemmas on the gesture mapper and its callback\<close>

lemma predictWebcam_clamped:
  assumes "predictWebcam landmarks = Inr (distance, height, detected)"
  shows "0 \<le> distance \<and> distance \<le> 1.2 \<and> 0 \<le> height \<and> height \<le> 1"
proof -
  from assms obtain d h where "distance = min (max d 0) 1.2" "height = min (max h 0) 1"
    by (auto simp add: predictWebcam_def Let_def split: sum.splits prod.splits)
  then show ?thesis by simp
qed

text \<open>
  The hands-lost fallback of a callback is decided by the mode that the callback has read,
  whatever the mode of the state it is called in.
\<close>

lemma handleHandUpdate_fallback:
  "targetMorphRef (handleHandUpdate True treeState' distance height False s)
     = (if treeState' = ASSEMBLED then 0 else 1)"
  by (simp add: handleHandUpdate_def)

text \<open>
  The callback that the tracker holds was created while \<open>hasStarted\<close> was true and the mode
  was \<open>ASSEMBLED\<close>.  Its hands-lost fallback is therefore \<open>0\<close> in every state, also after
  the mode has become \<open>SCATTERED\<close>.
\<close>

lemma onHandUpdate_closure: "onHandUpdate = handleHandUpdate True ASSEMBLED"
  by (simp add: onHandUpdate_def onOpen_def initialState_def)

lemma onHandUpdate_no_hands: "targetMorphRef (onHandUpdate distance height False s) = 0"
  by (simp add: onHandUpdate_closure handleHandUpdate_def)

section \<open>Lemmas on the geometry generator\<close>

declare foliageLoop.simps [simp del]

lemma foliageBody_count:
  "snd (foliageBody random i st) = snd st + 12 \<and> count (fst (foliageBody random i st)) = count (fst st)"
  by (simp add: foliageBody_def getRandomPointInSphere_def getRandomPointInCone_def Let_def)

lemma foliageBody_scatter:
  "snd st = 12 * i \<Longrightarrow>
   scatterPositions (fst (foliageBody random i st))
     = (scatterPositions (fst st))
         [i * 3 := fround (vx (particleScatter random i)),
          i * 3 + 1 := fround (vy (particleScatter random i)),
          i * 3 + 2 := fround (vz (particleScatter random i))]"
  by (simp add: foliageBody_def particleScatter_def getRandomPointInSphere_def
      getRandomPointInCone_def Let_def)

lemma foliageBody_tree:
  "snd st = 12 * i \<Longrightarrow>
   treePositions (fst (foliageBody random i st))
     = (treePositions (fst st))
         [i * 3 := fround (vx (particleTree random i)),
          i * 3 + 1 := fround (vy (particleTree random i)),
          i * 3 + 2 := fround (vz (particleTree random i))]"
  by (simp add: foliageBody_def particleTree_def particleCone_def getRandomPointInSphere_def
      getRandomPointInCone_def Let_def add.commute add.left_commute)

lemma write_particle_length:
  "length (xs[i * 3 := a, i * 3 + 1 := b, i * 3 + 2 := c]) = length xs"
  by simp

lemma write_particle_same:
  assumes "i * 3 + 2 < length xs"
  shows "xs[i * 3 := a, i * 3 + 1 := b, i * 3 + 2 := c] ! (i * 3) = a"
    and "xs[i * 3 := a, i * 3 + 1 := b, i * 3 + 2 := c] ! (i * 3 + 1) = b"
    and "xs[i * 3 := a, i * 3 + 1 := b, i * 3 + 2 := c] ! (i * 3 + 2) = c"
  using assms by simp_all

lemma write_particle_other:
  assumes "j \<noteq> (i::nat)"
  shows "xs[i * 3 := a, i * 3 + 1 := b, i * 3 + 2 := c] ! (j * 3) = xs ! (j * 3)"
    and "xs[i * 3 := a, i * 3 + 1 := b, i * 3 + 2 := c] ! (j * 3 + 1) = xs ! (j * 3 + 1)"
    and "xs[i * 3 := a, i * 3 + 1 := b, i * 3 + 2 := c] ! (j * 3 + 2) = xs ! (j * 3 + 2)"
  using assms by simp_all

lemma foliageBody_inv:
  assumes "i < FOLIAGE_COUNT" "foliageInv random i st"
  shows "foliageInv random (i + 1) (foliageBody random i st)"
proof -
  from assms(2) have n: "snd st = 12 * i"
    and ls: "length (scatterPositions (fst st)) = FOLIAGE_COUNT * 3"
    and lt: "length (treePositions (fst st)) = FOLIAGE_COUNT * 3"
    and c: "count (fst st) = FOLIAGE_COUNT"
    by (simp_all add: foliageInv_def)
  from assms(1) have inside: "i * 3 + 2 < FOLIAGE_COUNT * 3" by simp
  have old: "scatterPositions (fst st) ! (j * 3) = fround (vx (particleScatter random j))
              \<and> scatterPositions (fst st) ! (j * 3 + 1) = fround (vy (particleScatter random j))
              \<and> scatterPositions (fst st) ! (j * 3 + 2) = fround (vz (particleScatter random j))
              \<and> treePositions (fst st) ! (j * 3) = fround (vx (particleTree random j))
              \<and> treePositions (fst st) ! (j * 3 + 1) = fround (vy (particleTree random j))
              \<and> treePositions (fst st) ! (j * 3 + 2) = fround (vz (particleTree random j))"
    if "j < i" for j
    using assms(2) that by (simp add: foliageInv_def)
  have new: "scatterPositions (fst (foliageBody random i st)) ! (j * 3) = fround (vx (particleScatter random j))
              \<and> scatterPositions (fst (foliageBody random i st)) ! (j * 3 + 1) = fround (vy (particleScatter random j))
              \<and> scatterPositions (fst (foliageBody random i st)) ! (j * 3 + 2) = fround (vz (particleScatter random j))
              \<and> treePositions (fst (foliageBody random i st)) ! (j * 3) = fround (vx (particleTree random j))
              \<and> treePositions (fst (foliageBody random i st)) ! (j * 3 + 1) = fround (vy (particleTree random j))
              \<and> treePositions (fst (foliageBody random i st)) ! (j * 3 + 2) = fround (vz (particleTree random j))"
    if "j < i + 1" for j
  proof (cases "j = i")
    case True
    with inside ls lt show ?thesis
      by (simp only: foliageBody_scatter [OF n] foliageBody_tree [OF n] write_particle_same)
  next
    case False
    with that have "j < i" by simp
    from old [OF this] False show ?thesis
      by (simp only: foliageBody_scatter [OF n] foliageBody_tree [OF n] write_particle_other)
        simp
  qed
  have "snd (foliageBody random i st) = 12 * (i + 1)"
    using n by (simp add: foliageBody_count)
  moreover have "length (scatterPositions (fst (foliageBody random i st))) = FOLIAGE_COUNT * 3"
    using ls by (simp only: foliageBody_scatter [OF n] write_particle_length)
  moreover have "length (treePositions (fst (foliageBody random i st))) = FOLIAGE_COUNT * 3"
    using lt by (simp only: foliageBody_tree [OF n] write_particle_length)
  moreover have "count (fst (foliageBody random i st)) = FOLIAGE_COUNT"
    using c by (simp add: foliageBody_count)
  ultimately show ?thesis
    using new unfolding foliageInv_def by blast
qed

lemma foliageLoop_inv:
  "foliageInv random i st \<Longrightarrow> i \<le> FOLIAGE_COUNT \<Longrightarrow>
   foliageInv random FOLIAGE_COUNT (foliageLoop random i st)"
proof (induction random i st rule: foliageLoop.induct)
  case (1 random i st)
  show ?case
  proof (cases "i < FOLIAGE_COUNT")
    case True
    then have "foliageInv random (i + 1) (foliageBody random i st)"
      using "1.prems"(1) by (rule foliageBody_inv)
    with True "1.IH" have "foliageInv random FOLIAGE_COUNT (foliageLoop random (i + 1) (foliageBody random i st))"
      by simp
    with True show ?thesis by (subst foliageLoop.simps) simp
  next
    case False
    with "1.prems" have "i = FOLIAGE_COUNT" by simp
    with "1.prems"(1) False show ?thesis by (subst foliageLoop.simps) simp
  qed
qed

lemma generateFoliage_inv:
  "foliageInv random FOLIAGE_COUNT (generateFoliage random, 12 * FOLIAGE_COUNT)"
proof -
  let ?init = "(\<lparr> scatterPositions = replicate (FOLIAGE_COUNT * 3) 0,
          treePositions = replicate (FOLIAGE_COUNT * 3) 0,
          randoms = replicate FOLIAGE_COUNT 0,
          sizes = replicate FOLIAGE_COUNT 0,
          count = FOLIAGE_COUNT \<rparr>, 0::nat)"
  have "foliageInv random 0 ?init"
    by (simp add: foliageInv_def)
  then have inv: "foliageInv random FOLIAGE_COUNT (foliageLoop random 0 ?init)"
    by (rule foliageLoop_inv) simp
  then have "snd (foliageLoop random 0 ?init) = 12 * FOLIAGE_COUNT"
    by (simp add: foliageInv_def)
  then have "foliageLoop random 0 ?init = (generateFoliage random, 12 * FOLIAGE_COUNT)"
    by (simp add: generateFoliage_def prod_eq_iff)
  with inv show ?thesis by simp
qed

lemma generateFoliage_particle:
  assumes "i < FOLIAGE_COUNT"
  shows "count (generateFoliage random) = FOLIAGE_COUNT"
    and "scatterPositions (generateFoliage random) ! (i * 3) = fround (vx (particleScatter random i))"
    and "scatterPositions (generateFoliage random) ! (i * 3 + 1) = fround (vy (particleScatter random i))"
    and "scatterPositions (generateFoliage random) ! (i * 3 + 2) = fround (vz (particleScatter random i))"
    and "treePositions (generateFoliage random) ! (i * 3) = fround (vx (particleTree random i))"
    and "treePositions (generateFoliage random) ! (i * 3 + 1) = fround (vy (particleTree random i))"
    and "treePositions (generateFoliage random) ! (i * 3 + 2) = fround (vz (particleTree random i))"
  using generateFoliage_inv [of random] assms by (simp_all add: foliageInv_def)

lemma generateFoliage_count: "count (generateFoliage random) = FOLIAGE_COUNT"
  using generateFoliage_inv [of random] by (simp add: foliageInv_def)


lemma generateFoliage_positionAt:
  assumes "i < FOLIAGE_COUNT"
  shows "positionAt (scatterPositions (generateFoliage random)) i = fround3 (particleScatter random i)"
    and "positionAt (treePositions (generateFoliage random)) i = fround3 (particleTree random i)"
  using generateFoliage_particle [OF assms, of random] by (simp_all add: positionAt_def fround3_def)

lemma sphere_point_length:
  assumes "0 \<le> r"
  shows "sqrt ((r * sin p * cos t) * (r * sin p * cos t) + (r * sin p * sin t) * (r * sin p * sin t)
           + (r * cos p) * (r * cos p)) = r"
proof -
  have "(r * sin p * cos t) * (r * sin p * cos t) + (r * sin p * sin t) * (r * sin p * sin t)
           + (r * cos p) * (r * cos p)
        = r\<^sup>2 * ((sin p)\<^sup>2 * ((cos t)\<^sup>2 + (sin t)\<^sup>2) + (cos p)\<^sup>2)"
    by (simp only: power2_eq_square algebra_simps)
  also have "\<dots> = r\<^sup>2"
    by simp
  finally show ?thesis using assms by simp
qed

lemma getRandomPointInSphere_length:
  assumes "0 \<le> random (n + 2)" "0 \<le> radius"
  shows "length3 (fst (getRandomPointInSphere radius random n)) = root 3 (random (n + 2)) * radius"
proof -
  have "0 \<le> root 3 (random (n + 2)) * radius"
    using assms by simp
  from sphere_point_length [OF this] show ?thesis
    by (simp add: getRandomPointInSphere_def length3_def Let_def)
qed

lemma getRandomPointInSphere_inside:
  assumes "0 \<le> random (n + 2)" "random (n + 2) < 1" "0 \<le> radius"
  shows "length3 (fst (getRandomPointInSphere radius random n)) \<le> radius"
proof -
  have "root 3 (random (n + 2)) \<le> root 3 1"
    using assms(2) by (simp del: real_root_one)
  then have "root 3 (random (n + 2)) \<le> 1" by simp
  then have "root 3 (random (n + 2)) * radius \<le> 1 * radius"
    using assms(3) by (rule mult_right_mono)
  then show ?thesis
    using getRandomPointInSphere_length [of random n radius] assms(1,3) by simp
qed

lemma circle_point_length:
  assumes "0 \<le> r"
  shows "sqrt ((r * cos t)\<^sup>2 + (r * sin t)\<^sup>2) = r"
proof -
  have "(r * cos t)\<^sup>2 + (r * sin t)\<^sup>2 = r\<^sup>2 * ((cos t)\<^sup>2 + (sin t)\<^sup>2)"
    by (simp only: power2_eq_square algebra_simps)
  then show ?thesis using assms by simp
qed

lemma getRandomPointInCone_inside:
  assumes "0 \<le> random n" "random n < 1" "0 \<le> random (n + 1)" "random (n + 1) < 1"
    and "0 < height" "0 \<le> maxRadius"
  shows "sqrt ((vx (fst (getRandomPointInCone height maxRadius random n)))\<^sup>2
             + (vz (fst (getRandomPointInCone height maxRadius random n)))\<^sup>2)
          \<le> (1 - random n * height / height) * maxRadius"
    and "vy (fst (getRandomPointInCone height maxRadius random n))
          = random n * height - height / 2 - 0.5"
proof -
  let ?rAtY = "(1 - random n * height / height) * maxRadius"
  have rAtY: "0 \<le> ?rAtY" using assms by simp
  have "sqrt (random (n + 1)) \<le> 1" using assms(3,4) by simp
  then have le: "sqrt (random (n + 1)) * ?rAtY \<le> 1 * ?rAtY"
    using rAtY by (rule mult_right_mono)
  have "0 \<le> sqrt (random (n + 1)) * ?rAtY"
    using rAtY assms(3) by simp
  from circle_point_length [OF this] le
  show "sqrt ((vx (fst (getRandomPointInCone height maxRadius random n)))\<^sup>2
             + (vz (fst (getRandomPointInCone height maxRadius random n)))\<^sup>2)
          \<le> ?rAtY"
    by (simp add: getRandomPointInCone_def Let_def)
  show "vy (fst (getRandomPointInCone height maxRadius random n))
          = random n * height - height / 2 - 0.5"
    by (simp add: getRandomPointInCone_def Let_def)
qed

lemma jitter_bound_fraction:
  assumes "0 \<le> u" "u < 1"
  shows "\<bar>(u - 1 / 2) * (3 / 10)\<bar> \<le> (3 / 20::real)"
proof -
  have "\<bar>u - 1 / 2\<bar> \<le> 1 / 2" using assms by linarith
  then have "\<bar>u - 1 / 2\<bar> * \<bar>3 / 10\<bar> \<le> 1 / 2 * \<bar>3 / 10 :: real\<bar>"
    by (rule mult_right_mono) simp
  also have "1 / 2 * \<bar>3 / 10 :: real\<bar> = 3 / 20" by simp
  finally show ?thesis by (simp only: abs_mult)
qed

lemma jitter_bound:
  assumes "0 \<le> u" "u < 1"
  shows "\<bar>(u - 0.5) * 0.3\<bar> \<le> (0.15::real)"
  using jitter_bound_fraction [OF assms] by simp

lemma jitterRandom_range: "0 \<le> jitterRandom n \<and> jitterRandom n < 1"
  by (simp add: jitterRandom_def)

lemma FOLIAGE_COUNT_pos: "0 < FOLIAGE_COUNT"
  by (simp add: FOLIAGE_COUNT_def)

lemma particleCone_inside:
  assumes "\<forall>n. 0 \<le> random n \<and> random n < 1"
  shows "radial (particleCone random i) \<le> coneRadiusAt (vy (particleCone random i))"
    and "vy (particleCone random i) = random (12 * i + 3) * TREE_HEIGHT - TREE_HEIGHT / 2 - 0.5"
    and "coneRadiusAt (vy (particleCone random i)) \<le> TREE_RADIUS"
proof -
  have r: "0 \<le> random (12 * i + 3)" "random (12 * i + 3) < 1"
    "0 \<le> random (12 * i + 3 + 1)" "random (12 * i + 3 + 1) < 1"
    using assms by simp_all
  have hr: "0 < TREE_HEIGHT" "0 \<le> TREE_RADIUS"
    by (simp_all add: TREE_HEIGHT_def TREE_RADIUS_def)
  show y: "vy (particleCone random i) = random (12 * i + 3) * TREE_HEIGHT - TREE_HEIGHT / 2 - 0.5"
    unfolding particleCone_def by (rule getRandomPointInCone_inside(2) [OF r hr])
  have c: "coneRadiusAt (vy (particleCone random i))
        = (1 - random (12 * i + 3) * TREE_HEIGHT / TREE_HEIGHT) * TREE_RADIUS"
    by (simp add: y coneRadiusAt_def)
  have "radial (particleCone random i)
        \<le> (1 - random (12 * i + 3) * TREE_HEIGHT / TREE_HEIGHT) * TREE_RADIUS"
    unfolding radial_def particleCone_def by (rule getRandomPointInCone_inside(1) [OF r hr])
  then show "radial (particleCone random i) \<le> coneRadiusAt (vy (particleCone random i))"
    by (simp only: c)
  have "(1 - random (12 * i + 3)) * TREE_RADIUS \<le> 1 * TREE_RADIUS"
    using r(1) hr(2) by (intro mult_right_mono) simp_all
  then show "coneRadiusAt (vy (particleCone random i)) \<le> TREE_RADIUS"
    using hr(1) by (simp add: c)
qed

lemma particleTree_jitter:
  assumes "\<forall>n. 0 \<le> random n \<and> random n < 1"
  shows "\<bar>vx (particleTree random i) - vx (particleCone random i)\<bar> \<le> 0.15"
    and "\<bar>vy (particleTree random i) - vy (particleCone random i)\<bar> \<le> 0.15"
    and "\<bar>vz (particleTree random i) - vz (particleCone random i)\<bar> \<le> 0.15"
proof -
  have "vx (particleTree random i) - vx (particleCone random i) = (random (12 * i + 6) - 0.5) * 0.3"
    and "vy (particleTree random i) - vy (particleCone random i) = (random (12 * i + 7) - 0.5) * 0.3"
    and "vz (particleTree random i) - vz (particleCone random i) = (random (12 * i + 8) - 0.5) * 0.3"
    by (simp_all add: particleTree_def add_def)
  moreover have "\<bar>(random m - 0.5) * 0.3\<bar> \<le> 0.15" for m
    using assms by (intro jitter_bound) simp_all
  ultimately show "\<bar>vx (particleTree random i) - vx (particleCone random i)\<bar> \<le> 0.15"
    and "\<bar>vy (particleTree random i) - vy (particleCone random i)\<bar> \<le> 0.15"
    and "\<bar>vz (particleTree random i) - vz (particleCone random i)\<bar> \<le> 0.15"
    by (simp_all only:)
qed

lemma abs_coordinate_le_length3:
  "\<bar>vx v\<bar> \<le> length3 v" "\<bar>vy v\<bar> \<le> length3 v" "\<bar>vz v\<bar> \<le> length3 v"
proof -
  have "sqrt (vx v * vx v) \<le> length3 v" "sqrt (vy v * vy v) \<le> length3 v"
    "sqrt (vz v * vz v) \<le> length3 v"
    unfolding length3_def by (simp_all only: real_sqrt_le_iff) simp_all
  then show "\<bar>vx v\<bar> \<le> length3 v" "\<bar>vy v\<bar> \<le> length3 v" "\<bar>vz v\<bar> \<le> length3 v"
    by simp_all
qed

lemma abs_coordinate_le_radial: "\<bar>vx v\<bar> \<le> radial v" "\<bar>vz v\<bar> \<le> radial v"
proof -
  have "sqrt ((vx v)\<^sup>2) \<le> radial v" "sqrt ((vz v)\<^sup>2) \<le> radial v"
    unfolding radial_def by (simp_all only: real_sqrt_le_iff) simp_all
  then show "\<bar>vx v\<bar> \<le> radial v" "\<bar>vz v\<bar> \<le> radial v"
    by simp_all
qed

lemma length3_sqrt: "length3 v = sqrt ((sqrt ((vx v)\<^sup>2 + (vy v)\<^sup>2))\<^sup>2 + (vz v)\<^sup>2)"
  by (simp add: length3_def power2_eq_square)

lemma length3_triangle:
  "length3 (Vector3 (a + d) (b + e) (c + f)) \<le> length3 (Vector3 a b c) + length3 (Vector3 d e f)"
proof -
  let ?p = "sqrt ((a + d)\<^sup>2 + (b + e)\<^sup>2)"
  let ?A = "sqrt (a\<^sup>2 + b\<^sup>2)" and ?D = "sqrt (d\<^sup>2 + e\<^sup>2)"
  have 1: "?p \<le> ?A + ?D"
    by (rule real_sqrt_sum_squares_triangle_ineq)
  have "0 \<le> ?p" by simp
  with 1 have "?p\<^sup>2 \<le> (?A + ?D)\<^sup>2"
    by (intro power_mono) simp_all
  then have "sqrt (?p\<^sup>2 + (c + f)\<^sup>2) \<le> sqrt ((?A + ?D)\<^sup>2 + (c + f)\<^sup>2)"
    by (simp only: real_sqrt_le_iff add_le_cancel_right)
  also have "\<dots> \<le> sqrt (?A\<^sup>2 + c\<^sup>2) + sqrt (?D\<^sup>2 + f\<^sup>2)"
    by (rule real_sqrt_sum_squares_triangle_ineq)
  finally show ?thesis
    by (simp add: length3_sqrt)
qed

lemma length3_small:
  assumes "\<bar>d\<bar> \<le> m" "\<bar>e\<bar> \<le> m" "\<bar>f\<bar> \<le> m"
  shows "length3 (Vector3 d e f) \<le> 2 * m"
proof -
  have m: "0 \<le> m" using assms(1) by linarith
  have "d\<^sup>2 \<le> m\<^sup>2" "e\<^sup>2 \<le> m\<^sup>2" "f\<^sup>2 \<le> m\<^sup>2"
    using assms m by (simp_all add: abs_le_square_iff [symmetric])
  moreover have "0 \<le> m\<^sup>2" by simp
  ultimately have "d\<^sup>2 + e\<^sup>2 + f\<^sup>2 \<le> 4 * m\<^sup>2"
    by linarith
  then have "d * d + e * e + f * f \<le> (2 * m)\<^sup>2"
    by (simp add: power2_eq_square)
  moreover have "0 \<le> 2 * m" using m by simp
  ultimately have "sqrt (d * d + e * e + f * f) \<le> 2 * m"
    by (intro real_le_lsqrt)
  then show ?thesis
    by (simp add: length3_def)
qed

lemma radial_small:
  assumes "\<bar>a\<bar> \<le> m" "\<bar>b\<bar> \<le> m"
  shows "sqrt (a\<^sup>2 + b\<^sup>2) \<le> m * sqrt 2"
proof -
  have m: "0 \<le> m" using assms(1) by linarith
  have "a\<^sup>2 \<le> m\<^sup>2" "b\<^sup>2 \<le> m\<^sup>2"
    using assms m by (simp_all add: abs_le_square_iff [symmetric])
  then have "a\<^sup>2 + b\<^sup>2 \<le> m\<^sup>2 * 2" by simp
  then have "sqrt (a\<^sup>2 + b\<^sup>2) \<le> sqrt (m\<^sup>2 * 2)"
    by (simp only: real_sqrt_le_iff)
  also have "\<dots> = m * sqrt 2"
    using m by (simp add: real_sqrt_mult)
  finally show ?thesis .
qed

lemma sqrt2_le: "sqrt 2 \<le> 3 / 2"
proof -
  have "sqrt 2 \<le> sqrt ((3 / 2)\<^sup>2)"
    by (simp only: real_sqrt_le_iff) (simp add: power2_eq_square)
  then show ?thesis by simp
qed

lemma fround3_near:
  assumes "length3 v < 16"
  shows "\<bar>vx (fround3 v) - vx v\<bar> \<le> 1 / 2 ^ 21"
    and "\<bar>vy (fround3 v) - vy v\<bar> \<le> 1 / 2 ^ 21"
    and "\<bar>vz (fround3 v) - vz v\<bar> \<le> 1 / 2 ^ 21"
    and "length3 (fround3 v) \<le> length3 v + 1 / 2 ^ 20"
proof -
  have "\<bar>vx v\<bar> < 16" "\<bar>vy v\<bar> < 16" "\<bar>vz v\<bar> < 16"
    using assms abs_coordinate_le_length3 [of v] by linarith+
  then have n: "\<bar>fround (vx v) - vx v\<bar> \<le> 1 / 2 ^ 21" "\<bar>fround (vy v) - vy v\<bar> \<le> 1 / 2 ^ 21"
    "\<bar>fround (vz v) - vz v\<bar> \<le> 1 / 2 ^ 21"
    by (simp_all only: fround_near)
  then show "\<bar>vx (fround3 v) - vx v\<bar> \<le> 1 / 2 ^ 21"
    and "\<bar>vy (fround3 v) - vy v\<bar> \<le> 1 / 2 ^ 21"
    and "\<bar>vz (fround3 v) - vz v\<bar> \<le> 1 / 2 ^ 21"
    by (simp_all add: fround3_def)
  have "fround3 v = Vector3 (vx v + (fround (vx v) - vx v)) (vy v + (fround (vy v) - vy v))
      (vz v + (fround (vz v) - vz v))"
    by (simp add: fround3_def)
  then have "length3 (fround3 v) \<le> length3 (Vector3 (vx v) (vy v) (vz v))
      + length3 (Vector3 (fround (vx v) - vx v) (fround (vy v) - vy v) (fround (vz v) - vz v))"
    by (simp only: length3_triangle)
  also have "length3 (Vector3 (fround (vx v) - vx v) (fround (vy v) - vy v) (fround (vz v) - vz v))
      \<le> 2 * (1 / 2 ^ 21)"
    using n by (rule length3_small)
  finally show "length3 (fround3 v) \<le> length3 v + 1 / 2 ^ 20"
    by simp
qed


lemma roundingRandom_range: "0 \<le> roundingRandom n \<and> roundingRandom n < 1"
  by (simp add: roundingRandom_def)

lemma sixth_power_bracket:
  assumes "0 \<le> x" "0 \<le> l" "l ^ 6 < x ^ 6" "x ^ 6 < u ^ 6" "0 \<le> u"
  shows "l < x \<and> x < (u::real)"
  using assms by (meson power_less_imp_less_base)

lemma cube_bracket:
  assumes "0 \<le> x" "0 \<le> l" "l ^ 3 < x ^ 3" "x ^ 3 < u ^ 3" "0 \<le> u"
  shows "l < x \<and> x < (u::real)"
  using assms by (meson power_less_imp_less_base)

lemma roundingRandom_scatter:
  "fround3 (particleScatter roundingRandom 0) = Vector3 (15410857 / 2 ^ 21) (15410857 / 2 ^ 21) 6"
proof -
  define w :: real where "w = 1 - 1 / 2 ^ 27"
  define c where "c = root 3 w"
  define s :: real where "s = sqrt 3 / 2"
  define t :: real where "t = sqrt 2 / 2"
  define X where "X = c * 12 * s * t"
  define Z where "Z = c * 12 * (1 / 2)"
  have w: "0 \<le> w" "w < 1" by (simp_all add: w_def)
  have c0: "0 \<le> c" using w by (simp add: c_def)
  have c3: "c ^ 3 = w" using w by (simp add: c_def)
  have s0: "0 \<le> s" by (simp add: s_def)
  have s2: "s\<^sup>2 = 3 / 4" by (simp add: s_def power2_eq_square)
  have t0: "0 \<le> t" by (simp add: t_def)
  have t2: "t\<^sup>2 = 1 / 2" by (simp add: t_def power2_eq_square)
  have point: "particleScatter roundingRandom 0 = Vector3 X X Z"
    by (simp add: particleScatter_def getRandomPointInSphere_def roundingRandom_def
        SCATTER_RADIUS_def Let_def X_def Z_def c_def w_def s_def t_def cos_45 sin_45
        sin_60 cos_60)
  have X0: "0 \<le> X" using c0 s0 t0 by (simp add: X_def)
  have "X ^ 6 = 12 ^ 6 * (c ^ 3)\<^sup>2 * (s\<^sup>2) ^ 3 * (t\<^sup>2) ^ 3"
    by (simp add: X_def power_mult_distrib flip: power_mult)
  also have "\<dots> = 157464 * w\<^sup>2"
    by (simp add: c3 s2 t2 power_divide)
  finally have X6: "X ^ 6 = 157464 * w\<^sup>2" .
  have "(30821713 / 2 ^ 22) ^ 6 < 157464 * w\<^sup>2" "157464 * w\<^sup>2 < (30821715 / 2 ^ 22) ^ 6"
    by (simp_all add: w_def power_divide power2_eq_square)
  then have Xb: "30821713 / 2 ^ 22 < X \<and> X < 30821715 / 2 ^ 22"
    using X0 by (intro sixth_power_bracket) (simp_all add: X6)
  have fX: "fround X = of_int 15410857 / 2 ^ 21"
    using Xb by (intro fround_between_4_and_8) simp_all
  have "((6 - 1 / 2 ^ 22) / 6) ^ 3 < w" "w < 1 ^ 3"
    by (simp_all add: w_def power_divide)
  then have "(6 - 1 / 2 ^ 22) / 6 < c \<and> c < 1"
    using c0 by (intro cube_bracket) (simp_all add: c3)
  then have Zb: "6 - 1 / 2 ^ 22 < Z \<and> Z < 6"
    by (simp add: Z_def)
  have fZ: "fround Z = of_int 12582912 / 2 ^ 21"
    using Zb by (intro fround_between_4_and_8) simp_all
  from fX fZ show ?thesis
    by (simp add: point fround3_def)
qed

lemma coneRadiusAt_difference:
  "coneRadiusAt y - coneRadiusAt y' = (y' - y) * (2 / 5)"
  by (simp add: coneRadiusAt_def TREE_HEIGHT_def TREE_RADIUS_def field_simps)

lemma particleTree_bounded:
  assumes "\<forall>n. 0 \<le> random n \<and> random n < 1"
  shows "length3 (particleTree random i) < 16"
proof -
  let ?c = "particleCone random i" and ?p = "particleTree random i"
  note inside = particleCone_inside [OF assms, of i]
  note jit = particleTree_jitter [OF assms, of i]
  have r: "0 \<le> random (12 * i + 3)" "random (12 * i + 3) < 1"
    using assms by simp_all
  have R: "TREE_RADIUS = 14 / 5" "TREE_HEIGHT = 7"
    by (simp_all add: TREE_RADIUS_def TREE_HEIGHT_def)
  have "\<bar>vx ?c\<bar> \<le> 14 / 5" "\<bar>vz ?c\<bar> \<le> 14 / 5"
    using abs_coordinate_le_radial [of ?c] inside(1,3) R(1) by linarith+
  moreover have "vy ?c = random (12 * i + 3) * 7 - 4"
    using inside(2) by (simp add: R)
  then have "\<bar>vy ?c\<bar> \<le> 4"
    using r by linarith
  moreover from jit have "\<bar>vx ?p - vx ?c\<bar> \<le> 3 / 20" "\<bar>vy ?p - vy ?c\<bar> \<le> 3 / 20"
    "\<bar>vz ?p - vz ?c\<bar> \<le> 3 / 20"
    by simp_all
  ultimately have "\<bar>vx ?p\<bar> \<le> 5" "\<bar>vy ?p\<bar> \<le> 5" "\<bar>vz ?p\<bar> \<le> 5"
    by linarith+
  then have "length3 (Vector3 (vx ?p) (vy ?p) (vz ?p)) \<le> 2 * 5"
    by (rule length3_small)
  then show ?thesis by simp
qed

lemma stored_tree_near_cone:
  assumes "\<forall>n. 0 \<le> random n \<and> random n < 1"
  shows "\<bar>vx (fround3 (particleTree random i)) - vx (particleCone random i)\<bar> \<le> 3 / 20 + 1 / 2 ^ 21"
    and "\<bar>vy (fround3 (particleTree random i)) - vy (particleCone random i)\<bar> \<le> 3 / 20 + 1 / 2 ^ 21"
    and "\<bar>vz (fround3 (particleTree random i)) - vz (particleCone random i)\<bar> \<le> 3 / 20 + 1 / 2 ^ 21"
proof -
  let ?c = "particleCone random i" and ?p = "particleTree random i"
  note near = fround3_near [OF particleTree_bounded [OF assms, of i]]
  from particleTree_jitter [OF assms, of i]
  have jit: "\<bar>vx ?p - vx ?c\<bar> \<le> 3 / 20" "\<bar>vy ?p - vy ?c\<bar> \<le> 3 / 20" "\<bar>vz ?p - vz ?c\<bar> \<le> 3 / 20"
    by simp_all
  show "\<bar>vx (fround3 ?p) - vx ?c\<bar> \<le> 3 / 20 + 1 / 2 ^ 21"
    using near(1) jit(1) by linarith
  show "\<bar>vy (fround3 ?p) - vy ?c\<bar> \<le> 3 / 20 + 1 / 2 ^ 21"
    using near(2) jit(2) by linarith
  show "\<bar>vz (fround3 ?p) - vz ?c\<bar> \<le> 3 / 20 + 1 / 2 ^ 21"
    using near(3) jit(3) by linarith
qed

lemma stored_tree_radial:
  assumes "\<forall>n. 0 \<le> random n \<and> random n < 1"
  shows "radial (fround3 (particleTree random i))
      \<le> radial (particleCone random i) + 3 / 20 * sqrt 2 + 3 / 2 ^ 22"
proof -
  let ?c = "particleCone random i" and ?q = "fround3 (particleTree random i)"
  note near = stored_tree_near_cone [OF assms, of i]
  have "sqrt ((vx ?c + (vx ?q - vx ?c))\<^sup>2 + (vz ?c + (vz ?q - vz ?c))\<^sup>2)
          \<le> sqrt ((vx ?c)\<^sup>2 + (vz ?c)\<^sup>2) + sqrt ((vx ?q - vx ?c)\<^sup>2 + (vz ?q - vz ?c)\<^sup>2)"
    by (rule real_sqrt_sum_squares_triangle_ineq)
  then have "radial ?q \<le> radial ?c + sqrt ((vx ?q - vx ?c)\<^sup>2 + (vz ?q - vz ?c)\<^sup>2)"
    by (simp add: radial_def)
  also have "sqrt ((vx ?q - vx ?c)\<^sup>2 + (vz ?q - vz ?c)\<^sup>2) \<le> (3 / 20 + 1 / 2 ^ 21) * sqrt 2"
    using near(1,3) by (rule radial_small)
  also have "(3 / 20 + 1 / 2 ^ 21) * sqrt 2 = 3 / 20 * sqrt 2 + 1 / 2 ^ 21 * sqrt 2"
    by (simp add: algebra_simps)
  also have "1 / 2 ^ 21 * sqrt 2 \<le> 1 / 2 ^ 21 * (3 / 2)"
    using sqrt2_le by (intro mult_left_mono) simp_all
  finally show ?thesis by simp
qed

section \<open>Lemmas on the formation blend\<close>

lemma clamp_unit: "0 \<le> x \<Longrightarrow> x \<le> 1 \<Longrightarrow> clamp x 0 1 = x"
  by (simp add: clamp_def)

lemma clamp_range: "0 \<le> clamp x 0 1 \<and> clamp x 0 1 \<le> 1"
  by (simp add: clamp_def)

lemma MathUtils_clamp_unit: "MathUtils_clamp x 0 1 = clamp x 0 1"
  by (simp add: MathUtils_clamp_def clamp_def)

lemma hermite_range:
  assumes "0 \<le> t" "t \<le> (1::real)"
  shows "0 \<le> t * t * (3 - 2 * t) \<and> t * t * (3 - 2 * t) \<le> 1"
proof -
  have "0 \<le> t * t * (3 - 2 * t)"
    using assms by simp
  moreover have "1 - t * t * (3 - 2 * t) = (1 - t) * (1 - t) * (1 + 2 * t)"
    by (simp add: algebra_simps)
  moreover have "0 \<le> (1 - t) * (1 - t) * (1 + 2 * t)"
    using assms by simp
  ultimately show ?thesis by linarith
qed

lemma smoothstep_range: "0 \<le> smoothstep 0 1 x \<and> smoothstep 0 1 x \<le> 1"
  using hermite_range [of "clamp x 0 1"] clamp_range [of x]
  by (simp add: smoothstep_def Let_def)

lemma easeInOutCubic_poly:
  assumes "x \<le> 1"
  shows "easeInOutCubic x = (if x < 1 / 2 then 4 * x ^ 3 else 1 - (2 - 2 * x) ^ 3 / 2)"
proof -
  have "0 \<le> - 2 * x + 2" using assms by simp
  then have "pow (- 2 * x + 2) 3 = (2 - 2 * x) ^ 3"
    by (simp add: pow_def)
  then show ?thesis
    by (simp add: easeInOutCubic_def power3_eq_cube)
qed

lemma mix_lerp:
  "mix a b t = Vector3 (lerp (vx a) (vx b) t) (lerp (vy a) (vy b) t) (lerp (vz a) (vz b) t)"
  by (simp add: mix_def lerp_def algebra_simps)

lemma MathUtils_lerp_lerp: "MathUtils_lerp a b t = lerp a b t"
  by (simp add: MathUtils_lerp_def lerp_def algebra_simps)

lemma length3_times3: "length3 (times3 v k) = length3 v * \<bar>k\<bar>"
proof -
  have "vx v * k * (vx v * k) + vy v * k * (vy v * k) + vz v * k * (vz v * k)
          = (vx v * vx v + vy v * vy v + vz v * vz v) * k\<^sup>2"
    by (simp add: power2_eq_square algebra_simps)
  then show ?thesis
    by (simp add: length3_def times3_def real_sqrt_mult)
qed

lemma length3_nonneg: "0 \<le> length3 v"
  by (simp add: length3_def)

lemma length3_normalize3:
  "length3 (normalize3 v) = (if length3 v = 0 then 0 else 1)"
proof (cases "length3 v = 0")
  case True
  then show ?thesis by (simp add: normalize3_def length3_def)
next
  case False
  let ?L = "length3 v"
  have "normalize3 v = times3 v (1 / ?L)"
    by (simp add: normalize3_def times3_def)
  then have "length3 (normalize3 v) = ?L * \<bar>1 / ?L\<bar>"
    by (simp only: length3_times3)
  also have "\<dots> = 1"
    using False length3_nonneg [of v] by simp
  finally show ?thesis using False by simp
qed

lemma breathing_offset_length:
  "length3 (times3 (normalize3 v) k) = (if length3 v = 0 then 0 else \<bar>k\<bar>)"
  by (simp add: length3_times3 length3_normalize3)

lemma breathe_abs:
  fixes a p :: real
  assumes "0 \<le> p" "p \<le> 1"
  shows "\<bar>sin a * 0.05 * (1 - p)\<bar> = \<bar>sin a\<bar> * 0.05 * (1 - p)"
    and "\<bar>sin a\<bar> * 0.05 * (1 - p) \<le> 0.05 * (1 - p)"
proof -
  show "\<bar>sin a * 0.05 * (1 - p)\<bar> = \<bar>sin a\<bar> * 0.05 * (1 - p)"
    using assms by (simp add: abs_mult)
  have "\<bar>sin a\<bar> * (0.05 * (1 - p)) \<le> 1 * (0.05 * (1 - p))"
    using assms by (intro mult_right_mono) simp_all
  then show "\<bar>sin a\<bar> * 0.05 * (1 - p) \<le> 0.05 * (1 - p)"
    by (simp add: mult.assoc)
qed

section \<open>The smoothing tick and its closed form\<close>

text \<open>
  Claim C1.  One tick replaces the current morph value \<open>c\<close> by the target \<open>t\<close> when
  \<open>\<bar>t - c\<bar> < 0.001\<close>, and by \<open>c + (t - c) * 0.08\<close> otherwise; the height value is
  treated the same way with the rate \<open>0.05\<close>.  Starting from the current value \<open>0\<close> with the
  target fixed at \<open>1\<close>, the morph value after \<open>N\<close> ticks is \<open>1 - (1 - 0.08) ^ N\<close> for
  every \<open>N \<le> 83\<close>; tick 84 is the snap, after which the value is exactly \<open>1\<close>.  At
  every \<open>N\<close> the value differs from \<open>1 - (1 - 0.08) ^ N\<close> by less than \<open>0.001\<close>.
\<close>

theorem smoothing_tick_closed_form:
  "morphUpdate t c = (if \<bar>t - c\<bar> < 0.001 then t else c + (t - c) * 0.08)
   \<and> heightUpdate t c = (if \<bar>t - c\<bar> < 0.001 then t else c + (t - c) * 0.05)
   \<and> morphProgress (loop s) = morphUpdate (targetMorphRef s) (morphProgress s)
   \<and> handHeight (loop s) = heightUpdate (targetHeightRef s) (handHeight s)
   \<and> morphProgress (ticks N (s\<lparr>morphProgress := 0, targetMorphRef := 1\<rparr>))
       = (if N \<le> 83 then 1 - (1 - 0.08) ^ N else 1)
   \<and> \<bar>morphProgress (ticks N (s\<lparr>morphProgress := 0, targetMorphRef := 1\<rparr>))
        - (1 - (1 - 0.08) ^ N)\<bar> < 0.001"
proof -
  have "morphProgress (ticks N (s\<lparr>morphProgress := 0, targetMorphRef := 1\<rparr>))
          = (approach 0.08 1 ^^ N) 0"
    by (simp add: ticks_morphProgress morphUpdate_approach)
  then show ?thesis
    using morph_closed_form [of N] morph_closed_form_near [of N]
    by (simp add: morphUpdate_def heightUpdate_def loop_def Let_def)
qed

section \<open>A reading without hands\<close>

text \<open>
  Claim C2, as stated, fails: a reading with \<open>detected = false\<close> that arrives after the
  start does overwrite the morph target.  After the start, a detected reading with spread
  \<open>1/2\<close> leaves the morph target at \<open>1/2\<close> and the mode at \<open>ASSEMBLED\<close>; the reading
  without hands that follows (the tracker then delivers spread \<open>0\<close>, height \<open>1/2\<close>) sets
  the morph target to \<open>0\<close>, the hands-lost fallback.
\<close>

theorem no_hands_overwrites_morph_target_counterexample:
  "hasStarted (onHandUpdate (1 / 2) (4 / 5) True (onOpen initialState))
   \<and> treeState (onHandUpdate (1 / 2) (4 / 5) True (onOpen initialState)) = ASSEMBLED
   \<and> targetMorphRef (onHandUpdate (1 / 2) (4 / 5) True (onOpen initialState)) = 1 / 2
   \<and> targetMorphRef
        (onHandUpdate 0 (1 / 2) False
          (onHandUpdate (1 / 2) (4 / 5) True (onOpen initialState))) = 0"
  by (simp add: onHandUpdate_def handleHandUpdate_def onOpen_def initialState_def)

text \<open>
  Claim C2, amended.  When a reading with \<open>detected = false\<close> arrives after the start, the
  height target is not overwritten (in particular it is not reset to \<open>1/2\<close>), the discrete
  mode and the two smoothed values are unchanged, and the hand-detected flag becomes
  false; the morph target is overwritten with the hands-lost fallback, which is \<open>0\<close> or
  \<open>1\<close>, and is \<open>0\<close> while the mode is \<open>ASSEMBLED\<close>.  This holds for the callback of every
  render after the start, called in any state, and so for the callback that the tracker
  holds.  The reading that the tracker delivers when it finds no hand is spread \<open>0\<close>,
  height \<open>1/2\<close>, \<open>detected = false\<close>.
\<close>

theorem no_hands_keeps_height_target:
  assumes "hasStarted s"
  shows "targetHeightRef (handleHandUpdate (hasStarted s) (treeState s) distance height False s')
        = targetHeightRef s'
    \<and> treeState (handleHandUpdate (hasStarted s) (treeState s) distance height False s')
        = treeState s'
    \<and> handDetected (handleHandUpdate (hasStarted s) (treeState s) distance height False s')
        = False
    \<and> morphProgress (handleHandUpdate (hasStarted s) (treeState s) distance height False s')
        = morphProgress s'
    \<and> handHeight (handleHandUpdate (hasStarted s) (treeState s) distance height False s')
        = handHeight s'
    \<and> hasStarted (handleHandUpdate (hasStarted s) (treeState s) distance height False s')
        = hasStarted s'
    \<and> (targetMorphRef (handleHandUpdate (hasStarted s) (treeState s) distance height False s') = 0
        \<or> targetMorphRef (handleHandUpdate (hasStarted s) (treeState s) distance height False s') = 1)
    \<and> (treeState s = ASSEMBLED \<and> treeState s' = ASSEMBLED \<longrightarrow>
        targetMorphRef (handleHandUpdate (hasStarted s) (treeState s) distance height False s') = 0)
    \<and> predictWebcam (Some []) = Inr (0, 1 / 2, False)
    \<and> predictWebcam None = Inr (0, 1 / 2, False)"
  using assms by (simp add: handleHandUpdate_def predictWebcam_def)

theorem no_hands_keeps_height_target_witness:
  "hasStarted (onOpen initialState)
   \<and> treeState (onOpen initialState) = ASSEMBLED
   \<and> treeState (onHandUpdate (1 / 2) (4 / 5) True (onOpen initialState)) = ASSEMBLED
   \<and> targetHeightRef (onHandUpdate (1 / 2) (4 / 5) True (onOpen initialState)) = 4 / 5
   \<and> targetHeightRef
        (onHandUpdate 0 (1 / 2) False
          (onHandUpdate (1 / 2) (4 / 5) True (onOpen initialState))) = 4 / 5
   \<and> treeState
        (onHandUpdate 0 (1 / 2) False
          (onHandUpdate (1 / 2) (4 / 5) True (onOpen initialState))) = ASSEMBLED
   \<and> handDetected
        (onHandUpdate 0 (1 / 2) False
          (onHandUpdate (1 / 2) (4 / 5) True (onOpen initialState))) = False
   \<and> targetMorphRef
        (onHandUpdate 0 (1 / 2) False
          (onHandUpdate (1 / 2) (4 / 5) True (onOpen initialState))) = 0
   \<and> treeState (onHandUpdate 1 (4 / 5) True (onOpen initialState)) = SCATTERED
   \<and> targetHeightRef
        (onHandUpdate 0 (1 / 2) False
          (onHandUpdate 1 (4 / 5) True (onOpen initialState))) = 4 / 5
   \<and> treeState
        (onHandUpdate 0 (1 / 2) False
          (onHandUpdate 1 (4 / 5) True (onOpen initialState))) = SCATTERED"
proof -
  let ?s = "onOpen initialState"
  let ?s' = "onHandUpdate (1 / 2) (4 / 5) True ?s"
  have s: "hasStarted ?s" "treeState ?s = ASSEMBLED"
    by (simp_all add: onOpen_def initialState_def)
  have s': "treeState ?s' = ASSEMBLED" "targetHeightRef ?s' = 4 / 5"
    by (simp_all add: onHandUpdate_def handleHandUpdate_def onOpen_def initialState_def)
  let ?t = "onHandUpdate 1 (4 / 5) True ?s"
  have t: "treeState ?t = SCATTERED" "targetHeightRef ?t = 4 / 5"
    by (simp_all add: onHandUpdate_def handleHandUpdate_def onOpen_def initialState_def)
  have call: "onHandUpdate 0 (1 / 2) False u
      = handleHandUpdate (hasStarted ?s) (treeState ?s) 0 (1 / 2) False u" for u
    by (simp only: onHandUpdate_def)
  from no_hands_keeps_height_target [OF s(1), of 0 "1 / 2" ?s'] s s'
  have 1: "targetHeightRef (onHandUpdate 0 (1 / 2) False ?s') = 4 / 5"
    "treeState (onHandUpdate 0 (1 / 2) False ?s') = ASSEMBLED"
    "handDetected (onHandUpdate 0 (1 / 2) False ?s') = False"
    "targetMorphRef (onHandUpdate 0 (1 / 2) False ?s') = 0"
    unfolding call by simp_all
  from no_hands_keeps_height_target [OF s(1), of 0 "1 / 2" ?t] t
  have 2: "targetHeightRef (onHandUpdate 0 (1 / 2) False ?t) = 4 / 5"
    "treeState (onHandUpdate 0 (1 / 2) False ?t) = SCATTERED"
    unfolding call by simp_all
  from s s' t 1 2 show ?thesis
    by (simp only: simp_thms)
qed

section \<open>The gesture mapper's output\<close>

text \<open>
  Claim C3.  With two hands, the spread is the Euclidean distance, in the image plane,
  between the two index fingertips (landmark 8 of each hand), so it is \<open>0\<close> when the two
  fingertips coincide, and the height is \<open>1\<close> minus the mean of their \<open>y\<close> coordinates.
  With one hand, the spread is twice the Euclidean distance between thumb tip (landmark 4)
  and pinky tip (landmark 20), and the height is \<open>1\<close> minus the \<open>y\<close> coordinate of the
  index fingertip.  What is delivered to \<open>onHandUpdate\<close> is the spread clamped to
  \<open>[0, 1.2]\<close> and the height clamped to \<open>[0, 1]\<close>, for every landmark set for which a reading
  is delivered; a spread of at most \<open>1.2\<close> is delivered as it is.
\<close>

theorem predictWebcam_reading:
  "(8 < length handA \<and> 8 < length handB \<longrightarrow>
      predictWebcam (Some [handA, handB])
        = Inr (min (max (sqrt ((lx (handA ! 8) - lx (handB ! 8))\<^sup>2 + (ly (handA ! 8) - ly (handB ! 8))\<^sup>2)) 0) 1.2,
               min (max (1 - (ly (handA ! 8) + ly (handB ! 8)) / 2) 0) 1,
               True))
   \<and> (8 < length handA \<and> 8 < length handB
        \<and> lx (handA ! 8) = lx (handB ! 8) \<and> ly (handA ! 8) = ly (handB ! 8) \<longrightarrow>
      fst (projr (predictWebcam (Some [handA, handB]))) = 0)
   \<and> (8 < length handA \<and> 8 < length handB
        \<and> sqrt ((lx (handA ! 8) - lx (handB ! 8))\<^sup>2 + (ly (handA ! 8) - ly (handB ! 8))\<^sup>2) \<le> 1.2 \<longrightarrow>
      fst (projr (predictWebcam (Some [handA, handB])))
        = sqrt ((lx (handA ! 8) - lx (handB ! 8))\<^sup>2 + (ly (handA ! 8) - ly (handB ! 8))\<^sup>2))
   \<and> (20 < length hand \<longrightarrow>
      predictWebcam (Some [hand])
        = Inr (min (max (2 * sqrt ((lx (hand ! 4) - lx (hand ! 20))\<^sup>2 + (ly (hand ! 4) - ly (hand ! 20))\<^sup>2)) 0) 1.2,
               min (max (1 - ly (hand ! 8)) 0) 1,
               True))
   \<and> (predictWebcam landmarks = Inr (distance, height, detected) \<longrightarrow>
      0 \<le> distance \<and> distance \<le> 1.2 \<and> 0 \<le> height \<and> height \<le> 1)"
proof -
  have two: "predictWebcam (Some [handA, handB])
        = Inr (min (max (sqrt ((lx (handA ! 8) - lx (handB ! 8))\<^sup>2 + (ly (handA ! 8) - ly (handB ! 8))\<^sup>2)) 0) 1.2,
               min (max (1 - (ly (handA ! 8) + ly (handB ! 8)) / 2) 0) 1,
               True)"
    if "8 < length handA \<and> 8 < length handB"
    using that by (simp add: predictWebcam_def landmarkAt_def power2_eq_square Let_def)
  have one: "predictWebcam (Some [hand])
        = Inr (min (max (2 * sqrt ((lx (hand ! 4) - lx (hand ! 20))\<^sup>2 + (ly (hand ! 4) - ly (hand ! 20))\<^sup>2)) 0) 1.2,
               min (max (1 - ly (hand ! 8)) 0) 1,
               True)"
    if "20 < length hand"
    using that by (simp add: predictWebcam_def landmarkAt_def power2_eq_square Let_def)
  have zero: "fst (projr (predictWebcam (Some [handA, handB]))) = 0"
    if "8 < length handA \<and> 8 < length handB
        \<and> lx (handA ! 8) = lx (handB ! 8) \<and> ly (handA ! 8) = ly (handB ! 8)"
    using that two by simp
  have exact: "fst (projr (predictWebcam (Some [handA, handB])))
        = sqrt ((lx (handA ! 8) - lx (handB ! 8))\<^sup>2 + (ly (handA ! 8) - ly (handB ! 8))\<^sup>2)"
    if "8 < length handA \<and> 8 < length handB
        \<and> sqrt ((lx (handA ! 8) - lx (handB ! 8))\<^sup>2 + (ly (handA ! 8) - ly (handB ! 8))\<^sup>2) \<le> 1.2"
    using that two by simp
  have range: "0 \<le> distance \<and> distance \<le> 1.2 \<and> 0 \<le> height \<and> height \<le> 1"
    if "predictWebcam landmarks = Inr (distance, height, detected)"
    using that by (rule predictWebcam_clamped)
  from two one zero exact range show ?thesis by blast
qed

theorem predictWebcam_reading_witness:
  "8 < length (replicate 21 (Landmark (3 / 10) (2 / 5) 0))
   \<and> 8 < length (replicate 21 (Landmark 0 0 0))
   \<and> predictWebcam (Some [replicate 21 (Landmark (3 / 10) (2 / 5) 0), replicate 21 (Landmark 0 0 0)])
       = Inr (1 / 2, 4 / 5, True)
   \<and> fst (projr (predictWebcam
        (Some [replicate 21 (Landmark (3 / 10) (2 / 5) 0), replicate 21 (Landmark (3 / 10) (2 / 5) 0)]))) = 0
   \<and> 20 < length ((replicate 21 (Landmark 0 0 0))
          [4 := Landmark (1 / 10) (1 / 2) 0, 8 := Landmark (1 / 5) (3 / 10) 0,
           20 := Landmark (2 / 5) (9 / 10) 0])
   \<and> predictWebcam (Some [(replicate 21 (Landmark 0 0 0))
          [4 := Landmark (1 / 10) (1 / 2) 0, 8 := Landmark (1 / 5) (3 / 10) 0,
           20 := Landmark (2 / 5) (9 / 10) 0]])
       = Inr (1, 7 / 10, True)
   \<and> predictWebcam None = Inr (0, 1 / 2, False)
   \<and> (0::real) \<le> 0 \<and> (0::real) \<le> 1.2 \<and> (0::real) \<le> 1 / 2 \<and> (1 / 2::real) \<le> 1"
proof -
  let ?A = "replicate 21 (Landmark (3 / 10) (2 / 5) 0)"
  let ?B = "replicate 21 (Landmark 0 0 0)"
  let ?H = "(replicate 21 (Landmark 0 0 0))
          [4 := Landmark (1 / 10) (1 / 2) 0, 8 := Landmark (1 / 5) (3 / 10) 0,
           20 := Landmark (2 / 5) (9 / 10) 0]"
  have len: "8 < length ?A" "8 < length ?B" "20 < length ?H"
    by simp_all
  have "(3 / 10)\<^sup>2 + (2 / 5)\<^sup>2 = ((1 / 2)\<^sup>2 :: real)"
    by (simp add: power2_eq_square)
  then have "sqrt ((3 / 10)\<^sup>2 + (2 / 5)\<^sup>2) = sqrt ((1 / 2)\<^sup>2)"
    by (rule arg_cong)
  then have root: "sqrt ((3 / 10)\<^sup>2 + (2 / 5)\<^sup>2) = 1 / 2"
    by simp
  have "(1 / 10 - 2 / 5)\<^sup>2 + (1 / 2 - 9 / 10)\<^sup>2 = ((1 / 2)\<^sup>2 :: real)"
    by (simp add: power2_eq_square)
  then have "sqrt ((1 / 10 - 2 / 5)\<^sup>2 + (1 / 2 - 9 / 10)\<^sup>2) = sqrt ((1 / 2)\<^sup>2)"
    by (rule arg_cong)
  then have root': "sqrt ((1 / 10 - 2 / 5)\<^sup>2 + (1 / 2 - 9 / 10)\<^sup>2) = 1 / 2"
    by simp
  from predictWebcam_reading [of ?A ?B] len root
  have 1: "predictWebcam (Some [?A, ?B]) = Inr (1 / 2, 4 / 5, True)"
    by simp
  from predictWebcam_reading [of ?A ?A] len
  have 2: "fst (projr (predictWebcam (Some [?A, ?A]))) = 0"
    by simp
  from predictWebcam_reading [of _ _ ?H] len root'
  have 3: "predictWebcam (Some [?H]) = Inr (1, 7 / 10, True)"
    by simp
  have 4: "predictWebcam None = Inr (0, 1 / 2, False)"
    by (simp add: predictWebcam_def)
  from predictWebcam_reading [of _ _ _ None 0 "1 / 2" False] 4
  have 5: "(0::real) \<le> 0 \<and> (0::real) \<le> 1.2 \<and> (0::real) \<le> 1 / 2 \<and> (1 / 2::real) \<le> 1"
    by simp
  from len(1,2) 1 2 len(3) 3 4 5 show ?thesis
    by (simp only: simp_thms)
qed

section \<open>The blended position of a foliage particle\<close>

text \<open>
  Claim C4.  For a particle with random phase \<open>aRandom\<close> and the global morph value
  \<open>uMorph\<close> (the uniform of the shader), the local progress is
  \<open>clamp (smoothstep 0 1 (uMorph * 1.5 - aRandom * 0.5)) 0 1\<close>, a number in \<open>[0, 1]\<close>
  (the value of \<open>smoothstep\<close> lies in \<open>[0, 1]\<close> already, so the clamp leaves it as it is).  The
  position is the linear interpolation from the formation position to the scatter
  position at \<open>easeInOutCubic localProgress\<close>, the cubic ease-in-out, plus an offset along
  the direction of that blended position: the unit vector of the blend times
  \<open>sin (uTime * 1.5 + aRandom * 10) * 0.05 * (1 - localProgress)\<close>.  The offset has the
  length \<open>\<bar>sin (uTime * 1.5 + aRandom * 10)\<bar> * 0.05 * (1 - localProgress)\<close> wherever the
  blend is not the zero vector, so it is at most \<open>0.05 * (1 - localProgress)\<close>.
\<close>

theorem foliage_vertex_blend:
  "(let localProgress = fst (foliageVertexShader uTime uMorph aTreePos aScatterPos aRandom);
        currentPos = snd (foliageVertexShader uTime uMorph aTreePos aScatterPos aRandom);
        blend = Vector3 (lerp (vx aTreePos) (vx aScatterPos) (easeInOutCubic localProgress))
                        (lerp (vy aTreePos) (vy aScatterPos) (easeInOutCubic localProgress))
                        (lerp (vz aTreePos) (vz aScatterPos) (easeInOutCubic localProgress));
        breathe = sin (uTime * 1.5 + aRandom * 10) * 0.05 * (1 - localProgress)
    in localProgress = clamp (smoothstep 0 1 (uMorph * 1.5 - aRandom * 0.5)) 0 1
       \<and> localProgress = smoothstep 0 1 (uMorph * 1.5 - aRandom * 0.5)
       \<and> 0 \<le> localProgress \<and> localProgress \<le> 1
       \<and> easeInOutCubic localProgress
            = (if localProgress < 1 / 2 then 4 * localProgress ^ 3
               else 1 - (2 - 2 * localProgress) ^ 3 / 2)
       \<and> currentPos = add blend (times3 (normalize3 blend) breathe)
       \<and> length3 (times3 (normalize3 blend) breathe) \<le> 0.05 * (1 - localProgress)
       \<and> (length3 blend \<noteq> 0 \<longrightarrow>
            length3 (times3 (normalize3 blend) breathe)
              = \<bar>sin (uTime * 1.5 + aRandom * 10)\<bar> * 0.05 * (1 - localProgress)))"
proof -
  define localProgress where
    "localProgress = fst (foliageVertexShader uTime uMorph aTreePos aScatterPos aRandom)"
  define blend where
    "blend = Vector3 (lerp (vx aTreePos) (vx aScatterPos) (easeInOutCubic localProgress))
                        (lerp (vy aTreePos) (vy aScatterPos) (easeInOutCubic localProgress))
                        (lerp (vz aTreePos) (vz aScatterPos) (easeInOutCubic localProgress))"
  define breathe where "breathe = sin (uTime * 1.5 + aRandom * 10) * 0.05 * (1 - localProgress)"
  have lp: "localProgress = clamp (smoothstep 0 1 (uMorph * 1.5 - aRandom * 0.5)) 0 1"
    by (simp add: localProgress_def foliageVertexShader_def Let_def)
  have lp': "localProgress = smoothstep 0 1 (uMorph * 1.5 - aRandom * 0.5)"
    using smoothstep_range [of "uMorph * 1.5 - aRandom * 0.5"] by (simp only: lp clamp_unit)
  have range: "0 \<le> localProgress" "localProgress \<le> 1"
    using clamp_range by (simp_all add: lp)
  have ease: "easeInOutCubic localProgress
            = (if localProgress < 1 / 2 then 4 * localProgress ^ 3
               else 1 - (2 - 2 * localProgress) ^ 3 / 2)"
    using range(2) by (rule easeInOutCubic_poly)
  have pos: "snd (foliageVertexShader uTime uMorph aTreePos aScatterPos aRandom)
      = add blend (times3 (normalize3 blend) breathe)"
    by (simp add: foliageVertexShader_def Let_def blend_def breathe_def lp mix_lerp)
  have len: "length3 (times3 (normalize3 blend) breathe)
      = (if length3 blend = 0 then 0 else \<bar>sin (uTime * 1.5 + aRandom * 10)\<bar> * 0.05 * (1 - localProgress))"
    using breathe_abs(1) [OF range] by (simp only: breathing_offset_length breathe_def)
  have bound: "length3 (times3 (normalize3 blend) breathe) \<le> 0.05 * (1 - localProgress)"
    using breathe_abs(2) [OF range, of "uTime * 1.5 + aRandom * 10"] range(2)
    by (simp add: len)
  from lp lp' range ease pos len bound show ?thesis
    unfolding Let_def localProgress_def [symmetric] blend_def [symmetric] breathe_def [symmetric]
    by simp
qed

theorem foliage_vertex_blend_witness:
  "fst (foliageVertexShader (pi / 3) 0 (Vector3 3 4 0) (Vector3 10 0 0) 0) = 0
   \<and> length3 (Vector3 (lerp 3 10 (easeInOutCubic 0)) (lerp 4 0 (easeInOutCubic 0))
                 (lerp 0 0 (easeInOutCubic 0))) \<noteq> 0
   \<and> length3 (times3 (normalize3 (Vector3 3 4 0)) (1 / 20)) = 1 / 20
   \<and> snd (foliageVertexShader (pi / 3) 0 (Vector3 3 4 0) (Vector3 10 0 0) 0)
       = add (Vector3 3 4 0) (times3 (normalize3 (Vector3 3 4 0)) (1 / 20))"
proof -
  have lp: "fst (foliageVertexShader (pi / 3) 0 (Vector3 3 4 0) (Vector3 10 0 0) 0) = 0"
    by (simp add: foliageVertexShader_def smoothstep_def clamp_def Let_def)
  have e: "easeInOutCubic 0 = 0"
    by (simp add: easeInOutCubic_def)
  have b: "Vector3 (lerp 3 10 0) (lerp 4 0 0) (lerp 0 0 0) = Vector3 3 4 0"
    by (simp add: lerp_def)
  have "sqrt (3 * 3 + 4 * 4) = sqrt (5\<^sup>2)"
    by simp
  then have l: "length3 (Vector3 3 4 0) = 5"
    by (simp add: length3_def)
  have s: "sin (pi / 3 * 1.5 + 0 * 10) = 1"
    by simp
  from foliage_vertex_blend [of "pi / 3" 0 "Vector3 3 4 0" "Vector3 10 0 0" 0]
  have "length3 (Vector3 3 4 0) \<noteq> 0 \<longrightarrow>
      length3 (times3 (normalize3 (Vector3 3 4 0)) (1 / 20)) = 1 / 20"
    and "snd (foliageVertexShader (pi / 3) 0 (Vector3 3 4 0) (Vector3 10 0 0) 0)
       = add (Vector3 3 4 0) (times3 (normalize3 (Vector3 3 4 0)) (1 / 20))"
    unfolding Let_def lp e s by (simp_all add: lerp_def)
  with l lp show ?thesis
    by (simp add: e lerp_def)
qed

section \<open>The local progress of an ornament\<close>

text \<open>
  Claim C5, as stated, fails: the progress of an ornament is not the foliage formula with
  the random phase replaced by the offset of the instance.  At the global morph value
  \<open>1/2\<close> and the instance \<open>0\<close>, whose offset is \<open>0\<close> whatever the constant, the foliage
  formula gives the local progress \<open>27/32\<close> and the eased value \<open>8067/8192\<close>; the ornament
  has the local progress \<open>3/5\<close> and the eased value \<open>93/125\<close>.
\<close>

theorem ornament_progress_differs_counterexample:
  "fst (foliageVertexShader 0 (1 / 2) (Vector3 0 0 0) (Vector3 0 0 0) (0 * 0.002)) = 27 / 32
   \<and> easeInOutCubic (fst (foliageVertexShader 0 (1 / 2) (Vector3 0 0 0) (Vector3 0 0 0) (0 * 0.002)))
       = 8067 / 8192
   \<and> ornamentSmoothMorph (1 / 2) 0 = 93 / 125
   \<and> ornamentSmoothMorph (1 / 2) 0
       \<noteq> easeInOutCubic (fst (foliageVertexShader 0 (1 / 2) (Vector3 0 0 0) (Vector3 0 0 0) (0 * 0.002)))"
proof -
  have f: "fst (foliageVertexShader 0 (1 / 2) (Vector3 0 0 0) (Vector3 0 0 0) (0 * 0.002)) = 27 / 32"
    by (simp add: foliageVertexShader_def smoothstep_def clamp_def Let_def)
  have e: "easeInOutCubic (27 / 32) = 8067 / 8192"
    by (simp add: easeInOutCubic_poly power3_eq_cube)
  have o: "ornamentSmoothMorph (1 / 2) 0 = 93 / 125"
    by (simp add: ornamentSmoothMorph_def MathUtils_clamp_def Let_def power3_eq_cube)
  from e o show ?thesis
    unfolding f by simp
qed

text \<open>
  Claim C5, amended.  For every ornament with index \<open>i\<close> and global morph value \<open>m\<close>, the
  ornament uses the same cubic ease-in-out and the same linear blend of the two positions
  as the foliage particles, but its own local progress: \<open>clamp (m * 1.2 - i * 0.002) 0 1\<close>,
  linear in \<open>m\<close> and without \<open>smoothstep\<close>, where the foliage has
  \<open>clamp (smoothstep 0 1 (m * 1.5 - r * 0.5)) 0 1\<close>.
\<close>

theorem ornament_progress_linear_clamp:
  "ornamentSmoothMorph targetMorph item_id
     = easeInOutCubic (clamp (targetMorph * 1.2 - real item_id * 0.002) 0 1)
   \<and> ornamentPosition targetMorph item_id treePosition scatterPosition
     = mix treePosition scatterPosition
         (easeInOutCubic (clamp (targetMorph * 1.2 - real item_id * 0.002) 0 1))"
proof -
  let ?l = "clamp (targetMorph * 1.2 - real item_id * 0.002) 0 1"
  have "?l \<le> 1" using clamp_range by simp
  then have "easeInOutCubic ?l = (if ?l < 1 / 2 then 4 * ?l ^ 3 else 1 - (2 - 2 * ?l) ^ 3 / 2)"
    by (rule easeInOutCubic_poly)
  then have s: "ornamentSmoothMorph targetMorph item_id = easeInOutCubic ?l"
    by (simp add: ornamentSmoothMorph_def MathUtils_clamp_unit Let_def power3_eq_cube)
  then show ?thesis
    by (simp add: ornamentPosition_def Let_def mix_lerp MathUtils_lerp_lerp)
qed

section \<open>The discrete mode and its thresholds\<close>

text \<open>
  Claim C6, as stated, fails: the mode does not follow the smoothed morph value
  \<open>morphProgress\<close>.  Right after the start the smoothed value is \<open>0\<close>; one detected reading
  with spread \<open>1\<close> flips the mode to \<open>SCATTERED\<close> at once, while the smoothed value is
  still \<open>0\<close>, and \<open>0.08\<close> after the next tick, far below \<open>0.6\<close>.
\<close>

theorem mode_flips_below_threshold_counterexample:
  "treeState (onOpen initialState) = ASSEMBLED
   \<and> treeState (onHandUpdate 1 (1 / 2) True (onOpen initialState)) = SCATTERED
   \<and> morphProgress (onHandUpdate 1 (1 / 2) True (onOpen initialState)) = 0
   \<and> morphProgress (loop (onHandUpdate 1 (1 / 2) True (onOpen initialState))) = 0.08
   \<and> treeState (loop (onHandUpdate 1 (1 / 2) True (onOpen initialState))) = SCATTERED"
  by (simp add: onHandUpdate_def handleHandUpdate_def onOpen_def initialState_def loop_def
      morphUpdate_def heightUpdate_def)

text \<open>
  Claim C6, amended.  The thresholds apply to the spread of a detected gesture reading,
  clamped to \<open>[0, 1]\<close> (the value that becomes the morph target), not to the smoothed
  value.  After the start, a detected reading with clamped spread \<open>v\<close> sets the mode to
  \<open>SCATTERED\<close> when \<open>v > 0.6\<close>, to \<open>ASSEMBLED\<close> when \<open>v < 0.4\<close>, and leaves it unchanged
  for every \<open>v\<close> with \<open>0.4 \<le> v \<le> 0.6\<close>; so such a reading flips the mode to \<open>SCATTERED\<close>
  only if \<open>v > 0.6\<close> and back to \<open>ASSEMBLED\<close> only if \<open>v < 0.4\<close>.  This holds for the
  callback of every render after the start, called in any state.  A tick of the smoothing
  loop never changes the mode.
\<close>

theorem mode_hysteresis_on_clamped_spread:
  assumes "hasStarted s"
  shows "targetMorphRef (handleHandUpdate (hasStarted s) (treeState s) distance height True s')
        = min (max distance 0) 1
    \<and> (min (max distance 0) 1 > 0.6 \<longrightarrow>
          treeState (handleHandUpdate (hasStarted s) (treeState s) distance height True s')
            = SCATTERED)
    \<and> (min (max distance 0) 1 < 0.4 \<longrightarrow>
          treeState (handleHandUpdate (hasStarted s) (treeState s) distance height True s')
            = ASSEMBLED)
    \<and> (0.4 \<le> min (max distance 0) 1 \<and> min (max distance 0) 1 \<le> 0.6 \<longrightarrow>
          treeState (handleHandUpdate (hasStarted s) (treeState s) distance height True s')
            = treeState s')
    \<and> (treeState s' = ASSEMBLED
          \<and> treeState (handleHandUpdate (hasStarted s) (treeState s) distance height True s')
              = SCATTERED \<longrightarrow>
          min (max distance 0) 1 > 0.6)
    \<and> (treeState s' = SCATTERED
          \<and> treeState (handleHandUpdate (hasStarted s) (treeState s) distance height True s')
              = ASSEMBLED \<longrightarrow>
          min (max distance 0) 1 < 0.4)
    \<and> treeState (loop s') = treeState s'"
  using assms by (auto simp add: handleHandUpdate_def loop_def Let_def)

theorem mode_hysteresis_on_clamped_spread_witness:
  "hasStarted (onOpen initialState)
   \<and> treeState (onOpen initialState) = ASSEMBLED
   \<and> min (max (7 / 10) 0) 1 > (0.6::real)
   \<and> treeState (onHandUpdate (7 / 10) (1 / 2) True (onOpen initialState)) = SCATTERED
   \<and> (0.4::real) \<le> min (max (1 / 2) 0) 1 \<and> min (max (1 / 2) 0) 1 \<le> (0.6::real)
   \<and> treeState
        (onHandUpdate (1 / 2) (1 / 2) True
          (onHandUpdate (7 / 10) (1 / 2) True (onOpen initialState))) = SCATTERED
   \<and> min (max (3 / 10) 0) 1 < (0.4::real)
   \<and> treeState
        (onHandUpdate (3 / 10) (1 / 2) True
          (onHandUpdate (7 / 10) (1 / 2) True (onOpen initialState))) = ASSEMBLED
   \<and> treeState (onHandUpdate (1 / 2) (1 / 2) True (onOpen initialState)) = ASSEMBLED"
proof -
  let ?s0 = "onOpen initialState"
  let ?s1 = "onHandUpdate (7 / 10) (1 / 2) True ?s0"
  have s0: "hasStarted ?s0" "treeState ?s0 = ASSEMBLED"
    by (simp_all add: onOpen_def initialState_def)
  have call: "onHandUpdate d h True t = handleHandUpdate (hasStarted ?s0) (treeState ?s0) d h True t"
    for d h t
    by (simp only: onHandUpdate_def)
  have a: "min (max (7 / 10) 0) 1 > (0.6::real)"
    and b: "(0.4::real) \<le> min (max (1 / 2) 0) 1" "min (max (1 / 2) 0) 1 \<le> (0.6::real)"
    and c: "min (max (3 / 10) 0) 1 < (0.4::real)"
    by simp_all
  from mode_hysteresis_on_clamped_spread [OF s0(1), of "7 / 10" "1 / 2" ?s0] a
  have 1: "treeState ?s1 = SCATTERED"
    unfolding call by blast
  from mode_hysteresis_on_clamped_spread [OF s0(1), of "1 / 2" "1 / 2" ?s1] b 1
  have 2: "treeState (onHandUpdate (1 / 2) (1 / 2) True ?s1) = SCATTERED"
    unfolding call by metis
  from mode_hysteresis_on_clamped_spread [OF s0(1), of "3 / 10" "1 / 2" ?s1] c
  have 3: "treeState (onHandUpdate (3 / 10) (1 / 2) True ?s1) = ASSEMBLED"
    unfolding call by blast
  from mode_hysteresis_on_clamped_spread [OF s0(1), of "1 / 2" "1 / 2" ?s0] b s0(2)
  have 4: "treeState (onHandUpdate (1 / 2) (1 / 2) True ?s0) = ASSEMBLED"
    unfolding call by metis
  from s0 a b c 1 2 3 4 show ?thesis by blast
qed

section \<open>Formation positions and the cone\<close>

text \<open>
  Claim C7, as stated, fails: the formation position stored for a particle is the point
  sampled in the cone plus a jitter of up to \<open>0.15\<close> along each axis, and the jitter can
  carry it out of the cone.  With the draws \<open>jitterRandom\<close> the first particle is sampled
  on the axis at \<open>6.93\<close> above the base, where the radius of the cone is \<open>0.028\<close>; the
  jitter moves it to the distance \<open>0.12\<close> from the axis, at the same height.  The three
  numbers stored are \<open>0.12\<close> and \<open>2.93\<close> rounded to single precision, and \<open>0\<close>.
\<close>

theorem foliage_jitter_leaves_cone_counterexample:
  "treePositions (generateFoliage jitterRandom) ! 0 = 16106127 / 2 ^ 27
   \<and> treePositions (generateFoliage jitterRandom) ! 1 = 12289311 / 2 ^ 22
   \<and> treePositions (generateFoliage jitterRandom) ! 2 = 0
   \<and> radial (positionAt (treePositions (generateFoliage jitterRandom)) 0) = 16106127 / 2 ^ 27
   \<and> coneRadiusAt (vy (positionAt (treePositions (generateFoliage jitterRandom)) 0))
       = 293601 / 10485760
   \<and> radial (positionAt (treePositions (generateFoliage jitterRandom)) 0)
       > coneRadiusAt (vy (positionAt (treePositions (generateFoliage jitterRandom)) 0))"
proof -
  have "particleTree jitterRandom 0 = Vector3 (3 / 25) (293 / 100) 0"
    by (simp add: particleTree_def particleCone_def getRandomPointInCone_def add_def
        jitterRandom_def TREE_HEIGHT_def TREE_RADIUS_def Let_def)
  then have "fround3 (particleTree jitterRandom 0) = Vector3 (16106127 / 2 ^ 27) (12289311 / 2 ^ 22) 0"
    by (simp only: fround3_def vec3.sel fround_3_25 fround_293_100 fround_zero)
  with generateFoliage_positionAt(2) [OF FOLIAGE_COUNT_pos, of jitterRandom]
  have p: "positionAt (treePositions (generateFoliage jitterRandom)) 0
      = Vector3 (16106127 / 2 ^ 27) (12289311 / 2 ^ 22) 0"
    by (simp only:)
  have e: "treePositions (generateFoliage jitterRandom) ! 0 = 16106127 / 2 ^ 27"
    "treePositions (generateFoliage jitterRandom) ! 1 = 12289311 / 2 ^ 22"
    "treePositions (generateFoliage jitterRandom) ! 2 = 0"
    using p by (simp_all add: positionAt_def numeral_2_eq_2)
  have r: "radial (Vector3 (16106127 / 2 ^ 27) (12289311 / 2 ^ 22) 0) = 16106127 / 2 ^ 27"
    by (simp add: radial_def)
  have c: "coneRadiusAt (vy (Vector3 (16106127 / 2 ^ 27) (12289311 / 2 ^ 22) 0)) = 293601 / 10485760"
    by (simp add: coneRadiusAt_def TREE_HEIGHT_def TREE_RADIUS_def)
  have "(293601 / 10485760 :: real) < 16106127 / 2 ^ 27"
    by simp
  with e r c show ?thesis
    unfolding p by (simp only: simp_thms)
qed

text \<open>
  Claim C7, amended.  For every generated foliage particle, the point sampled by
  \<open>getRandomPointInCone\<close> lies within the cone's radius at its height.  The stored
  formation position is that point plus a jitter of at most \<open>0.15\<close> along each axis,
  rounded to single precision, which moves a coordinate by at most \<open>2 ^ - 21\<close>.  So the
  radial component of the formation position exceeds the cone's radius at the particle's
  height by at most \<open>0.15 * sqrt 2 + 0.06 + 10 ^ - 6\<close>, and it is at most
  \<open>TREE_RADIUS + 0.15 * sqrt 2 + 10 ^ - 6\<close>.
\<close>

theorem foliage_formation_near_cone:
  assumes "\<forall>n. 0 \<le> random n \<and> random n < 1" and "i < count (generateFoliage random)"
  shows "radial (fst (getRandomPointInCone TREE_HEIGHT TREE_RADIUS random (12 * i + 3)))
           \<le> coneRadiusAt (vy (fst (getRandomPointInCone TREE_HEIGHT TREE_RADIUS random (12 * i + 3))))
    \<and> \<bar>vx (positionAt (treePositions (generateFoliage random)) i)
         - vx (fst (getRandomPointInCone TREE_HEIGHT TREE_RADIUS random (12 * i + 3)))\<bar>
        \<le> 0.15 + 1 / 2 ^ 21
    \<and> \<bar>vy (positionAt (treePositions (generateFoliage random)) i)
         - vy (fst (getRandomPointInCone TREE_HEIGHT TREE_RADIUS random (12 * i + 3)))\<bar>
        \<le> 0.15 + 1 / 2 ^ 21
    \<and> \<bar>vz (positionAt (treePositions (generateFoliage random)) i)
         - vz (fst (getRandomPointInCone TREE_HEIGHT TREE_RADIUS random (12 * i + 3)))\<bar>
        \<le> 0.15 + 1 / 2 ^ 21
    \<and> radial (positionAt (treePositions (generateFoliage random)) i)
         \<le> coneRadiusAt (vy (positionAt (treePositions (generateFoliage random)) i))
            + 0.15 * sqrt 2 + 0.06 + 1 / 10 ^ 6
    \<and> radial (positionAt (treePositions (generateFoliage random)) i)
         \<le> TREE_RADIUS + 0.15 * sqrt 2 + 1 / 10 ^ 6"
proof -
  from assms(2) have i: "i < FOLIAGE_COUNT"
    by (simp add: generateFoliage_count)
  let ?c = "particleCone random i" and ?q = "fround3 (particleTree random i)"
  have q: "positionAt (treePositions (generateFoliage random)) i = ?q"
    by (rule generateFoliage_positionAt(2) [OF i])
  have c: "fst (getRandomPointInCone TREE_HEIGHT TREE_RADIUS random (12 * i + 3)) = ?c"
    by (simp add: particleCone_def)
  note inside = particleCone_inside [OF assms(1), of i]
  note near = stored_tree_near_cone [OF assms(1), of i]
  note rad = stored_tree_radial [OF assms(1), of i]
  have "coneRadiusAt (vy ?c) - coneRadiusAt (vy ?q) = (vy ?q - vy ?c) * (2 / 5)"
    by (rule coneRadiusAt_difference)
  moreover from near(2) have "\<bar>vy ?q - vy ?c\<bar> \<le> 3 / 20 + 1 / 2097152"
    by simp
  then have "vy ?q - vy ?c \<le> 3 / 20 + 1 / 2097152"
    by linarith
  then have "(vy ?q - vy ?c) * (2 / 5) \<le> (3 / 20 + 1 / 2097152) * (2 / 5)"
    by (rule mult_right_mono) simp
  then have "(vy ?q - vy ?c) * (2 / 5) \<le> 3 / 50 + 1 / 5242880"
    by simp
  ultimately have shift: "coneRadiusAt (vy ?c) \<le> coneRadiusAt (vy ?q) + 3 / 50 + 1 / 5242880"
    by linarith
  from rad have rad': "radial ?q \<le> radial ?c + 3 / 20 * sqrt 2 + 3 / 4194304"
    by simp
  from rad' inside(1) shift
  have "radial ?q \<le> coneRadiusAt (vy ?q) + 3 / 20 * sqrt 2 + 3 / 50 + 1 / 1000000"
    by linarith
  then have close: "radial ?q \<le> coneRadiusAt (vy ?q) + 0.15 * sqrt 2 + 0.06 + 1 / 10 ^ 6"
    by simp
  from rad' inside(1,3)
  have "radial ?q \<le> TREE_RADIUS + 3 / 20 * sqrt 2 + 1 / 1000000"
    by linarith
  then have far: "radial ?q \<le> TREE_RADIUS + 0.15 * sqrt 2 + 1 / 10 ^ 6"
    by simp
  from near have near': "\<bar>vx ?q - vx ?c\<bar> \<le> 0.15 + 1 / 2 ^ 21" "\<bar>vy ?q - vy ?c\<bar> \<le> 0.15 + 1 / 2 ^ 21"
    "\<bar>vz ?q - vz ?c\<bar> \<le> 0.15 + 1 / 2 ^ 21"
    by simp_all
  from inside(1) near' close far show ?thesis
    unfolding q c by blast
qed

theorem foliage_formation_near_cone_witness:
  "(\<forall>n. 0 \<le> jitterRandom n \<and> jitterRandom n < 1)
   \<and> 0 < count (generateFoliage jitterRandom)
   \<and> radial (fst (getRandomPointInCone TREE_HEIGHT TREE_RADIUS jitterRandom (12 * 0 + 3)))
        \<le> coneRadiusAt (vy (fst (getRandomPointInCone TREE_HEIGHT TREE_RADIUS jitterRandom (12 * 0 + 3))))
   \<and> \<bar>vx (positionAt (treePositions (generateFoliage jitterRandom)) 0)
         - vx (fst (getRandomPointInCone TREE_HEIGHT TREE_RADIUS jitterRandom (12 * 0 + 3)))\<bar>
        \<le> 0.15 + 1 / 2 ^ 21
   \<and> radial (positionAt (treePositions (generateFoliage jitterRandom)) 0)
         \<le> coneRadiusAt (vy (positionAt (treePositions (generateFoliage jitterRandom)) 0))
            + 0.15 * sqrt 2 + 0.06 + 1 / 10 ^ 6
   \<and> radial (positionAt (treePositions (generateFoliage jitterRandom)) 0)
         \<le> TREE_RADIUS + 0.15 * sqrt 2 + 1 / 10 ^ 6"
proof -
  have a: "\<forall>n. 0 \<le> jitterRandom n \<and> jitterRandom n < 1"
    by (simp add: jitterRandom_range)
  have b: "0 < count (generateFoliage jitterRandom)"
    by (simp add: generateFoliage_count FOLIAGE_COUNT_pos)
  from foliage_formation_near_cone [OF a b] a b show ?thesis
    by blast
qed

section \<open>Scatter positions and the sphere\<close>

text \<open>
  Claim C8, as stated, fails: the point sampled in the sphere has a norm of at most
  \<open>SCATTER_RADIUS\<close>, but its coordinates are rounded to single precision when they are
  stored, and the rounding can carry the stored position out of the sphere.  With the
  draws \<open>roundingRandom\<close> (\<open>1/8\<close>, \<open>3/4\<close> and \<open>1 - 2 ^ - 27\<close>) the first scatter point is
  about \<open>(7.34846921, 7.34846921, 5.99999999)\<close>, of norm just below 12; the numbers stored
  are \<open>15410857 / 2 ^ 21\<close>, twice, and \<open>6\<close>, of norm above 12.
\<close>

theorem scatter_rounded_outside_sphere_counterexample:
  "scatterPositions (generateFoliage roundingRandom) ! 0 = 15410857 / 2 ^ 21
   \<and> scatterPositions (generateFoliage roundingRandom) ! 1 = 15410857 / 2 ^ 21
   \<and> scatterPositions (generateFoliage roundingRandom) ! 2 = 6
   \<and> length3 (positionAt (scatterPositions (generateFoliage roundingRandom)) 0) > SCATTER_RADIUS"
proof -
  have p: "positionAt (scatterPositions (generateFoliage roundingRandom)) 0
      = Vector3 (15410857 / 2 ^ 21) (15410857 / 2 ^ 21) 6"
    using generateFoliage_positionAt(1) [OF FOLIAGE_COUNT_pos, of roundingRandom]
    by (simp only: roundingRandom_scatter)
  have "12\<^sup>2 < (15410857 / 2 ^ 21) * (15410857 / 2 ^ 21)
      + (15410857 / 2 ^ 21) * (15410857 / 2 ^ 21) + (6 * 6 :: real)"
    by (simp add: power2_eq_square)
  then have "12 < length3 (Vector3 (15410857 / 2 ^ 21) (15410857 / 2 ^ 21) 6)"
    unfolding length3_def vec3.sel by (rule real_less_rsqrt)
  then have far: "SCATTER_RADIUS < length3 (positionAt (scatterPositions (generateFoliage roundingRandom)) 0)"
    by (simp only: p SCATTER_RADIUS_def)
  have "scatterPositions (generateFoliage roundingRandom) ! 0 = 15410857 / 2 ^ 21"
    and "scatterPositions (generateFoliage roundingRandom) ! 1 = 15410857 / 2 ^ 21"
    and "scatterPositions (generateFoliage roundingRandom) ! 2 = 6"
    using p by (simp_all add: positionAt_def numeral_2_eq_2)
  with far show ?thesis
    by blast
qed

text \<open>
  Claim C8, amended.  For every sequence of random draws in \<open>[0, 1)\<close> and every
  particle \<open>i\<close> of the generated foliage, the point sampled by \<open>getRandomPointInSphere\<close> has
  as its Euclidean norm the cube root of the third draw times \<open>SCATTER_RADIUS\<close>, which is
  at most \<open>SCATTER_RADIUS\<close>.  The stored scatter position is that point with each
  coordinate rounded to single precision, which moves a coordinate by at most
  \<open>2 ^ - 21\<close>; its norm is at most \<open>SCATTER_RADIUS + 10 ^ - 6\<close>.
\<close>

theorem scatter_near_sphere:
  assumes "\<forall>n. 0 \<le> random n \<and> random n < 1" and "i < count (generateFoliage random)"
  shows "length3 (fst (getRandomPointInSphere SCATTER_RADIUS random (12 * i)))
           = root 3 (random (12 * i + 2)) * SCATTER_RADIUS
    \<and> length3 (fst (getRandomPointInSphere SCATTER_RADIUS random (12 * i))) \<le> SCATTER_RADIUS
    \<and> positionAt (scatterPositions (generateFoliage random)) i
           = fround3 (fst (getRandomPointInSphere SCATTER_RADIUS random (12 * i)))
    \<and> \<bar>vx (positionAt (scatterPositions (generateFoliage random)) i)
         - vx (fst (getRandomPointInSphere SCATTER_RADIUS random (12 * i)))\<bar> \<le> 1 / 2 ^ 21
    \<and> \<bar>vy (positionAt (scatterPositions (generateFoliage random)) i)
         - vy (fst (getRandomPointInSphere SCATTER_RADIUS random (12 * i)))\<bar> \<le> 1 / 2 ^ 21
    \<and> \<bar>vz (positionAt (scatterPositions (generateFoliage random)) i)
         - vz (fst (getRandomPointInSphere SCATTER_RADIUS random (12 * i)))\<bar> \<le> 1 / 2 ^ 21
    \<and> length3 (positionAt (scatterPositions (generateFoliage random)) i)
           \<le> SCATTER_RADIUS + 1 / 10 ^ 6"
proof -
  from assms(2) have i: "i < FOLIAGE_COUNT"
    by (simp add: generateFoliage_count)
  let ?v = "fst (getRandomPointInSphere SCATTER_RADIUS random (12 * i))"
  have R: "0 \<le> SCATTER_RADIUS" "SCATTER_RADIUS = 12"
    by (simp_all add: SCATTER_RADIUS_def)
  have r: "0 \<le> random (12 * i + 2)" "random (12 * i + 2) < 1"
    using assms(1) by simp_all
  have len: "length3 ?v = root 3 (random (12 * i + 2)) * SCATTER_RADIUS"
    using getRandomPointInSphere_length [of random "12 * i" SCATTER_RADIUS] r R by simp
  have inside: "length3 ?v \<le> SCATTER_RADIUS"
    using getRandomPointInSphere_inside [of random "12 * i" SCATTER_RADIUS] r R by simp
  have p: "positionAt (scatterPositions (generateFoliage random)) i = fround3 ?v"
    using generateFoliage_positionAt(1) [OF i, of random] by (simp add: particleScatter_def)
  have "length3 ?v < 16"
    using inside R(2) by simp
  note near = fround3_near [OF this]
  have "length3 (fround3 ?v) \<le> SCATTER_RADIUS + 1 / 2 ^ 20"
    using near(4) inside by linarith
  also have "\<dots> \<le> SCATTER_RADIUS + 1 / 10 ^ 6"
    by simp
  finally have stored: "length3 (fround3 ?v) \<le> SCATTER_RADIUS + 1 / 10 ^ 6" .
  from len inside near(1,2,3) stored show ?thesis
    unfolding p by blast
qed

theorem scatter_near_sphere_witness:
  "(\<forall>n. 0 \<le> roundingRandom n \<and> roundingRandom n < 1)
   \<and> 0 < count (generateFoliage roundingRandom)
   \<and> roundingRandom (12 * 0 + 2) = 1 - 1 / 2 ^ 27
   \<and> length3 (fst (getRandomPointInSphere SCATTER_RADIUS roundingRandom (12 * 0)))
        = root 3 (roundingRandom (12 * 0 + 2)) * SCATTER_RADIUS
   \<and> length3 (fst (getRandomPointInSphere SCATTER_RADIUS roundingRandom (12 * 0)))
        \<le> SCATTER_RADIUS
   \<and> length3 (positionAt (scatterPositions (generateFoliage roundingRandom)) 0)
        \<le> SCATTER_RADIUS + 1 / 10 ^ 6"
proof -
  have a: "\<forall>n. 0 \<le> roundingRandom n \<and> roundingRandom n < 1"
    by (simp add: roundingRandom_range)
  have b: "0 < count (generateFoliage roundingRandom)"
    by (simp add: generateFoliage_count FOLIAGE_COUNT_pos)
  have c: "roundingRandom (12 * 0 + 2) = 1 - 1 / 2 ^ 27"
    by (simp add: roundingRandom_def)
  from scatter_near_sphere [OF a b] a b c show ?thesis
    by blast
qed


section \<open>Monotone approach and convergence of the smoothing loop\<close>

text \<open>
  Claim C9.  With the target fixed, every tick moves the current value toward the target
  and never past it: below the target the values increase and stay below it, above
  the target they decrease and stay above it.  The distance to the target after \<open>n\<close>
  ticks is at most \<open>(1 - k) ^ n\<close> times the initial distance, so the value is within
  \<open>0.001\<close> of the target after a bounded number of ticks (and equal to it from then on):
  for an initial distance of at most \<open>1\<close>, after 83 ticks for the morph value and after
  135 ticks for the height value.
\<close>

theorem smoothing_monotone_bounded:
  "(morphProgress s \<le> targetMorphRef s \<longrightarrow>
      morphProgress (ticks n s) \<le> morphProgress (ticks (Suc n) s)
      \<and> morphProgress (ticks (Suc n) s) \<le> targetMorphRef s)
   \<and> (targetMorphRef s \<le> morphProgress s \<longrightarrow>
      targetMorphRef s \<le> morphProgress (ticks (Suc n) s)
      \<and> morphProgress (ticks (Suc n) s) \<le> morphProgress (ticks n s))
   \<and> \<bar>targetMorphRef s - morphProgress (ticks n s)\<bar>
        \<le> 0.92 ^ n * \<bar>targetMorphRef s - morphProgress s\<bar>
   \<and> (\<exists>N. \<forall>m>N. morphProgress (ticks m s) = targetMorphRef s)
   \<and> (\<bar>targetMorphRef s - morphProgress s\<bar> \<le> 1 \<and> 83 \<le> n \<longrightarrow>
        \<bar>targetMorphRef s - morphProgress (ticks n s)\<bar> < 0.001)
   \<and> (handHeight s \<le> targetHeightRef s \<longrightarrow>
      handHeight (ticks n s) \<le> handHeight (ticks (Suc n) s)
      \<and> handHeight (ticks (Suc n) s) \<le> targetHeightRef s)
   \<and> (targetHeightRef s \<le> handHeight s \<longrightarrow>
      targetHeightRef s \<le> handHeight (ticks (Suc n) s)
      \<and> handHeight (ticks (Suc n) s) \<le> handHeight (ticks n s))
   \<and> \<bar>targetHeightRef s - handHeight (ticks n s)\<bar>
        \<le> 0.95 ^ n * \<bar>targetHeightRef s - handHeight s\<bar>
   \<and> (\<exists>N. \<forall>m>N. handHeight (ticks m s) = targetHeightRef s)
   \<and> (\<bar>targetHeightRef s - handHeight s\<bar> \<le> 1 \<and> 135 \<le> n \<longrightarrow>
        \<bar>targetHeightRef s - handHeight (ticks n s)\<bar> < 0.001)"
proof -
  have k8: "(0::real) < 0.08" "(0.08::real) < 1" and k5: "(0::real) < 0.05" "(0.05::real) < 1"
    by simp_all
  have m: "\<And>j. morphProgress (ticks j s) = (approach 0.08 (targetMorphRef s) ^^ j) (morphProgress s)"
    by (simp only: ticks_morphProgress morphUpdate_approach)
  have h: "\<And>j. handHeight (ticks j s) = (approach 0.05 (targetHeightRef s) ^^ j) (handHeight s)"
    by (simp only: ticks_handHeight heightUpdate_approach)
  have m1: "morphProgress s \<le> targetMorphRef s \<longrightarrow>
      morphProgress (ticks n s) \<le> morphProgress (ticks (Suc n) s)
      \<and> morphProgress (ticks (Suc n) s) \<le> targetMorphRef s"
    unfolding m using approach_funpow_below [OF k8] by blast
  have m2: "targetMorphRef s \<le> morphProgress s \<longrightarrow>
      targetMorphRef s \<le> morphProgress (ticks (Suc n) s)
      \<and> morphProgress (ticks (Suc n) s) \<le> morphProgress (ticks n s)"
    unfolding m using approach_funpow_above [OF k8] by blast
  have m3: "\<bar>targetMorphRef s - morphProgress (ticks n s)\<bar>
        \<le> 0.92 ^ n * \<bar>targetMorphRef s - morphProgress s\<bar>"
    unfolding m using approach_funpow_contract [OF k8, of "targetMorphRef s" n "morphProgress s"]
    by simp
  have m4: "\<exists>N. \<forall>m>N. morphProgress (ticks m s) = targetMorphRef s"
    unfolding m by (rule approach_funpow_eventually [OF k8])
  have m5: "\<bar>targetMorphRef s - morphProgress s\<bar> \<le> 1 \<and> 83 \<le> n \<longrightarrow>
        \<bar>targetMorphRef s - morphProgress (ticks n s)\<bar> < 0.001"
    unfolding m using approach_funpow_within [OF k8, where N = 83 and n = n] pow92_83
    by simp
  have h1: "handHeight s \<le> targetHeightRef s \<longrightarrow>
      handHeight (ticks n s) \<le> handHeight (ticks (Suc n) s)
      \<and> handHeight (ticks (Suc n) s) \<le> targetHeightRef s"
    unfolding h using approach_funpow_below [OF k5] by blast
  have h2: "targetHeightRef s \<le> handHeight s \<longrightarrow>
      targetHeightRef s \<le> handHeight (ticks (Suc n) s)
      \<and> handHeight (ticks (Suc n) s) \<le> handHeight (ticks n s)"
    unfolding h using approach_funpow_above [OF k5] by blast
  have h3: "\<bar>targetHeightRef s - handHeight (ticks n s)\<bar>
        \<le> 0.95 ^ n * \<bar>targetHeightRef s - handHeight s\<bar>"
    unfolding h using approach_funpow_contract [OF k5, of "targetHeightRef s" n "handHeight s"]
    by simp
  have h4: "\<exists>N. \<forall>m>N. handHeight (ticks m s) = targetHeightRef s"
    unfolding h by (rule approach_funpow_eventually [OF k5])
  have h5: "\<bar>targetHeightRef s - handHeight s\<bar> \<le> 1 \<and> 135 \<le> n \<longrightarrow>
        \<bar>targetHeightRef s - handHeight (ticks n s)\<bar> < 0.001"
    unfolding h using approach_funpow_within [OF k5, where N = 135 and n = n] pow95_135
    by simp
  from m1 m2 m3 m4 m5 h1 h2 h3 h4 h5 show ?thesis by blast
qed

theorem smoothing_monotone_bounded_witness:
  "morphProgress (initialState\<lparr>targetMorphRef := 1\<rparr>) \<le> targetMorphRef (initialState\<lparr>targetMorphRef := 1\<rparr>)
   \<and> morphProgress (ticks 0 (initialState\<lparr>targetMorphRef := 1\<rparr>))
        \<le> morphProgress (ticks (Suc 0) (initialState\<lparr>targetMorphRef := 1\<rparr>))
   \<and> morphProgress (ticks (Suc 0) (initialState\<lparr>targetMorphRef := 1\<rparr>)) \<le> 1
   \<and> targetMorphRef (initialState\<lparr>morphProgress := 1\<rparr>) \<le> morphProgress (initialState\<lparr>morphProgress := 1\<rparr>)
   \<and> 0 \<le> morphProgress (ticks (Suc 0) (initialState\<lparr>morphProgress := 1\<rparr>))
   \<and> morphProgress (ticks (Suc 0) (initialState\<lparr>morphProgress := 1\<rparr>))
        \<le> morphProgress (ticks 0 (initialState\<lparr>morphProgress := 1\<rparr>))
   \<and> \<bar>targetMorphRef (initialState\<lparr>targetMorphRef := 1\<rparr>) - morphProgress (initialState\<lparr>targetMorphRef := 1\<rparr>)\<bar> \<le> 1
   \<and> (83::nat) \<le> 83
   \<and> \<bar>1 - morphProgress (ticks 83 (initialState\<lparr>targetMorphRef := 1\<rparr>))\<bar> < 0.001
   \<and> handHeight (initialState\<lparr>targetHeightRef := 1\<rparr>) \<le> targetHeightRef (initialState\<lparr>targetHeightRef := 1\<rparr>)
   \<and> handHeight (ticks 0 (initialState\<lparr>targetHeightRef := 1\<rparr>))
        \<le> handHeight (ticks (Suc 0) (initialState\<lparr>targetHeightRef := 1\<rparr>))
   \<and> handHeight (ticks (Suc 0) (initialState\<lparr>targetHeightRef := 1\<rparr>)) \<le> 1
   \<and> targetHeightRef (initialState\<lparr>targetHeightRef := 0\<rparr>) \<le> handHeight (initialState\<lparr>targetHeightRef := 0\<rparr>)
   \<and> 0 \<le> handHeight (ticks (Suc 0) (initialState\<lparr>targetHeightRef := 0\<rparr>))
   \<and> handHeight (ticks (Suc 0) (initialState\<lparr>targetHeightRef := 0\<rparr>))
        \<le> handHeight (ticks 0 (initialState\<lparr>targetHeightRef := 0\<rparr>))
   \<and> \<bar>targetHeightRef (initialState\<lparr>targetHeightRef := 1\<rparr>) - handHeight (initialState\<lparr>targetHeightRef := 1\<rparr>)\<bar> \<le> 1
   \<and> (135::nat) \<le> 135
   \<and> \<bar>1 - handHeight (ticks 135 (initialState\<lparr>targetHeightRef := 1\<rparr>))\<bar> < 0.001"
proof -
  let ?up = "initialState\<lparr>targetMorphRef := 1\<rparr>"
  let ?down = "initialState\<lparr>morphProgress := 1\<rparr>"
  let ?hup = "initialState\<lparr>targetHeightRef := 1\<rparr>"
  let ?hdown = "initialState\<lparr>targetHeightRef := 0\<rparr>"
  have a: "morphProgress ?up \<le> targetMorphRef ?up" "targetMorphRef ?up = 1"
    and b: "targetMorphRef ?down \<le> morphProgress ?down" "targetMorphRef ?down = 0"
    and c: "\<bar>targetMorphRef ?up - morphProgress ?up\<bar> \<le> 1"
    and d: "handHeight ?hup \<le> targetHeightRef ?hup" "targetHeightRef ?hup = 1"
    and e: "targetHeightRef ?hdown \<le> handHeight ?hdown" "targetHeightRef ?hdown = 0"
    and f: "\<bar>targetHeightRef ?hup - handHeight ?hup\<bar> \<le> 1"
    by (simp_all add: initialState_def)
  from smoothing_monotone_bounded [of ?up 0] a
  have 1: "morphProgress (ticks 0 ?up) \<le> morphProgress (ticks (Suc 0) ?up)
           \<and> morphProgress (ticks (Suc 0) ?up) \<le> 1"
    by metis
  from smoothing_monotone_bounded [of ?down 0] b
  have 2: "0 \<le> morphProgress (ticks (Suc 0) ?down)
           \<and> morphProgress (ticks (Suc 0) ?down) \<le> morphProgress (ticks 0 ?down)"
    by metis
  from smoothing_monotone_bounded [of ?up 83] a(2) c
  have 3: "\<bar>1 - morphProgress (ticks 83 ?up)\<bar> < 0.001"
    by (metis order_refl)
  from smoothing_monotone_bounded [of ?hup 0] d
  have 4: "handHeight (ticks 0 ?hup) \<le> handHeight (ticks (Suc 0) ?hup)
           \<and> handHeight (ticks (Suc 0) ?hup) \<le> 1"
    by metis
  from smoothing_monotone_bounded [of ?hdown 0] e
  have 5: "0 \<le> handHeight (ticks (Suc 0) ?hdown)
           \<and> handHeight (ticks (Suc 0) ?hdown) \<le> handHeight (ticks 0 ?hdown)"
    by metis
  from smoothing_monotone_bounded [of ?hup 135] d(2) f
  have 6: "\<bar>1 - handHeight (ticks 135 ?hup)\<bar> < 0.001"
    by (metis order_refl)
  from a(1) b(1) c d(1) e(1) f 1 2 3 4 5 6 show ?thesis
    by blast
qed

section \<open>Gesture readings before the start\<close>

text \<open>
  Claim C10.  While \<open>hasStarted\<close> is false, the \<open>handleHandUpdate\<close> of the render returns
  at its first line: whatever the reading is, and whatever the state it is called in, the
  whole state is left as it was, and so in particular the hand-detected flag, the morph
  target, the height target and the discrete mode.
\<close>

theorem handleHandUpdate_before_start:
  assumes "\<not> hasStarted s"
  shows "handleHandUpdate (hasStarted s) (treeState s) distance height detected s' = s'
    \<and> handDetected (handleHandUpdate (hasStarted s) (treeState s) distance height detected s')
        = handDetected s'
    \<and> targetMorphRef (handleHandUpdate (hasStarted s) (treeState s) distance height detected s')
        = targetMorphRef s'
    \<and> targetHeightRef (handleHandUpdate (hasStarted s) (treeState s) distance height detected s')
        = targetHeightRef s'
    \<and> treeState (handleHandUpdate (hasStarted s) (treeState s) distance height detected s')
        = treeState s'"
  using assms by (simp add: handleHandUpdate_def)

theorem handleHandUpdate_before_start_witness:
  "\<not> hasStarted initialState
   \<and> handleHandUpdate (hasStarted initialState) (treeState initialState) 1 (9 / 10) True
        initialState = initialState
   \<and> handDetected
        (handleHandUpdate (hasStarted initialState) (treeState initialState) 1 (9 / 10) True
          initialState) = False
   \<and> targetMorphRef
        (handleHandUpdate (hasStarted initialState) (treeState initialState) 1 (9 / 10) True
          initialState) = 0
   \<and> targetHeightRef
        (handleHandUpdate (hasStarted initialState) (treeState initialState) 1 (9 / 10) True
          initialState) = 1 / 2
   \<and> treeState
        (handleHandUpdate (hasStarted initialState) (treeState initialState) 1 (9 / 10) True
          initialState) = ASSEMBLED"
proof -
  have h: "\<not> hasStarted initialState"
    by (simp add: initialState_def)
  have i: "handDetected initialState = False" "targetMorphRef initialState = 0"
    "targetHeightRef initialState = 1 / 2" "treeState initialState = ASSEMBLED"
    by (simp_all add: initialState_def)
  from handleHandUpdate_before_start [OF h, of 1 "9 / 10" True initialState] h i
  show ?thesis
    by simp
qed

end
